theory Spec2Isabelle
  imports Complex_Main "HOL-Library.Sublist"
begin

section \<open>Python values\<close>

text \<open>
  The backend is a Python program over JSON request bodies, pandas data frames and three
  external services. Floats are modelled as exact rationals with one extra value for NaN
  (\<open>None\<close>): rounding error and infinities are outside the model, everything else
  (missing values, the skipping of NaN by pandas reductions, rounding to one decimal, half
  to even) is written out.
\<close>

type_synonym pyfloat = "rat option"

abbreviation NaN :: pyfloat where
  "NaN \<equiv> None"

abbreviation Fin :: "rat \<Rightarrow> pyfloat" where
  "Fin \<equiv> Some"

definition round_half_even :: "rat \<Rightarrow> int" where
  "round_half_even q =
     (let f = \<lfloor>q\<rfloor>; d = q - of_int f
      in if d < 1 / 2 then f else if 1 / 2 < d then f + 1 else if even f then f else f + 1)"

definition round1 :: "rat \<Rightarrow> rat" where
  \<comment> \<open>\<open>round(x, 1)\<close> on a finite float\<close>
  "round1 q = of_int (round_half_even (q * 10)) / 10"

definition py_round1 :: "pyfloat \<Rightarrow> pyfloat" where
  \<comment> \<open>\<open>round(x, 1)\<close>; NaN rounds to NaN\<close>
  "py_round1 v = map_option round1 v"

section \<open>pandas series and the climate data frame\<close>

type_synonym series = "pyfloat list"

fun present :: "series \<Rightarrow> rat list" where
  "present [] = []"
| "present (None # c) = present c"
| "present (Some x # c) = x # present c"

definition series_mean :: "series \<Rightarrow> pyfloat" where
  \<comment> \<open>\<open>Series.mean()\<close>, skipna: the mean of the values present, NaN when there is none\<close>
  "series_mean c =
     (case present c of [] \<Rightarrow> NaN | x # xs \<Rightarrow> Fin (sum_list (x # xs) / of_nat (length (x # xs))))"

definition series_max :: "series \<Rightarrow> pyfloat" where
  "series_max c = (case present c of [] \<Rightarrow> NaN | x # xs \<Rightarrow> Fin (fold max xs x))"

definition series_min :: "series \<Rightarrow> pyfloat" where
  "series_min c = (case present c of [] \<Rightarrow> NaN | x # xs \<Rightarrow> Fin (fold min xs x))"

definition series_sum :: "series \<Rightarrow> pyfloat" where
  \<comment> \<open>\<open>Series.sum()\<close>, skipna: 0 when no value is present\<close>
  "series_sum c = Fin (sum_list (present c))"

definition series_sub_scalar :: "series \<Rightarrow> rat \<Rightarrow> series" where
  "series_sub_scalar c k = map (map_option (\<lambda>x. x - k)) c"

definition series_div_scalar :: "series \<Rightarrow> rat \<Rightarrow> series" where
  "series_div_scalar c k = map (map_option (\<lambda>x. x / k)) c"

definition scalar_sub_series :: "rat \<Rightarrow> series \<Rightarrow> series" where
  "scalar_sub_series k c = map (map_option (\<lambda>x. k - x)) c"

definition series_clip_lower :: "series \<Rightarrow> rat \<Rightarrow> series" where
  \<comment> \<open>\<open>Series.clip(lower=l)\<close>; NaN stays NaN\<close>
  "series_clip_lower c l = map (map_option (max l)) c"

definition float_mul :: "pyfloat \<Rightarrow> pyfloat \<Rightarrow> pyfloat" where
  "float_mul a b = (case a of None \<Rightarrow> NaN | Some x \<Rightarrow> map_option (\<lambda>y. x * y) b)"

definition series_mul :: "series \<Rightarrow> series \<Rightarrow> series" where
  "series_mul a b = map (\<lambda>(x, y). float_mul x y) (zip a b)"

definition float_gt :: "pyfloat \<Rightarrow> rat \<Rightarrow> bool" where
  \<comment> \<open>a comparison with NaN is False\<close>
  "float_gt v k = (case v of None \<Rightarrow> False | Some x \<Rightarrow> k < x)"

definition float_le :: "pyfloat \<Rightarrow> rat \<Rightarrow> bool" where
  "float_le v k = (case v of None \<Rightarrow> False | Some x \<Rightarrow> x \<le> k)"

definition float_lt :: "pyfloat \<Rightarrow> rat \<Rightarrow> bool" where
  "float_lt v k = (case v of None \<Rightarrow> False | Some x \<Rightarrow> x < k)"

definition mask_and :: "bool list \<Rightarrow> bool list \<Rightarrow> bool list" where
  "mask_and a b = map (\<lambda>(x, y). x \<and> y) (zip a b)"

definition mask_sum :: "bool list \<Rightarrow> int" where
  \<comment> \<open>\<open>int(mask.sum())\<close>: the number of True entries\<close>
  "mask_sum m = int (length (filter id m))"

record dataframe =
  Date :: "int list"
  Avg_Temp :: series
  Max_Temp :: series
  Relative_Humidity :: series
  Solar_Radiation :: series
  Cloud_Cover :: series
  Wind_Speed :: series
  CDD :: "series option"
  Solar_Potential :: "series option"

text \<open>
  A data frame holds the seven columns the fetcher produces (dates as day ordinals) and the
  two columns \<open>calculate_energy_metrics\<close> assigns; \<open>None\<close> is a column the frame
  does not have.
\<close>

definition columns :: "dataframe \<Rightarrow> string list" where
  \<comment> \<open>\<open>df.columns\<close>, in insertion order: the header line of \<open>df.to_csv\<close>\<close>
  "columns df =
     [''Date'', ''Avg_Temp'', ''Max_Temp'', ''Relative_Humidity'', ''Solar_Radiation'',
      ''Cloud_Cover'', ''Wind_Speed'']
     @ (case CDD df of None \<Rightarrow> [] | Some _ \<Rightarrow> [''CDD''])
     @ (case Solar_Potential df of None \<Rightarrow> [] | Some _ \<Rightarrow> [''Solar_Potential''])"

definition record_count_is :: "dataframe \<Rightarrow> nat \<Rightarrow> bool" where
  \<comment> \<open>the frame has \<open>n\<close> daily records: every fetched column has \<open>n\<close> entries\<close>
  "record_count_is df n =
     (length (Date df) = n \<and> length (Avg_Temp df) = n \<and> length (Max_Temp df) = n
      \<and> length (Relative_Humidity df) = n \<and> length (Solar_Radiation df) = n
      \<and> length (Cloud_Cover df) = n \<and> length (Wind_Speed df) = n)"

definition fetched_columns ::
  "dataframe \<Rightarrow> int list \<times> series \<times> series \<times> series \<times> series \<times> series \<times> series" where
  \<comment> \<open>the seven columns the fetcher produces\<close>
  "fetched_columns df =
     (Date df, Avg_Temp df, Max_Temp df, Relative_Humidity df, Solar_Radiation df,
      Cloud_Cover df, Wind_Speed df)"


section \<open>Constants and configuration\<close>

definition TEMP_COMFORT :: rat where
  "TEMP_COMFORT = 24"

definition TEMP_EXTREME :: rat where
  "TEMP_EXTREME = 35"

section \<open>The metrics engine\<close>

record metrics =
  avg_temp :: pyfloat
  max_temp :: pyfloat
  min_temp :: pyfloat
  cdd_total :: pyfloat
  extreme_heat_days :: int
  comfortable_days :: int
  avg_radiation :: pyfloat
  avg_solar_potential :: pyfloat
  optimal_solar_days :: int
  avg_humidity :: pyfloat
  high_demand_days :: int

definition calculate_energy_metrics :: "dataframe \<Rightarrow> metrics \<times> dataframe" where
  \<comment> \<open>returns the metrics and the frame as the two column assignments leave it: the
      function mutates the frame it is given\<close>
  "calculate_energy_metrics df =
     (let cdd = series_clip_lower (series_sub_scalar (Avg_Temp df) TEMP_COMFORT) 0;
          df1 = df\<lparr>CDD := Some cdd\<rparr>;
          sp = series_mul (Solar_Radiation df1)
                 (scalar_sub_series 1 (series_div_scalar (Cloud_Cover df1) 100));
          df2 = df1\<lparr>Solar_Potential := Some sp\<rparr>
      in (\<lparr>avg_temp = py_round1 (series_mean (Avg_Temp df)),
           max_temp = py_round1 (series_max (Max_Temp df)),
           min_temp = py_round1 (series_min (Avg_Temp df)),
           cdd_total = py_round1 (series_sum cdd),
           extreme_heat_days = mask_sum (map (\<lambda>v. float_gt v TEMP_EXTREME) (Max_Temp df1)),
           comfortable_days = mask_sum (map (\<lambda>v. float_le v TEMP_COMFORT) (Max_Temp df1)),
           avg_radiation = py_round1 (series_mean (Solar_Radiation df2)),
           avg_solar_potential = py_round1 (series_mean sp),
           optimal_solar_days = mask_sum (map (\<lambda>v. float_lt v 40) (Cloud_Cover df2)),
           avg_humidity = py_round1 (series_mean (Relative_Humidity df2)),
           high_demand_days =
             mask_sum (mask_and (map (\<lambda>v. float_gt v 32) (Max_Temp df2))
                                (map (\<lambda>v. float_gt v 60) (Relative_Humidity df2)))\<rparr>,
          df2))"

section \<open>JSON values and the Python operations applied to them\<close>

text \<open>
  The value of a field of a request body is null, a boolean, a number, a string or
  something else (an array or an object). Strings are ASCII texts.
\<close>

datatype json = JNull | JBool bool | JNum rat | JStr string | JOther

datatype py_exception =
    AttributeError
  | TypeError
  | ValueError string
  | Zone_not_available string
  | KeyError string
  | HTTPError string
  | PayloadError string
  | RenderError string
  | BadRequest string

definition is_upper :: "char \<Rightarrow> bool" where
  "is_upper c = (let n = of_char c :: nat in 65 \<le> n \<and> n \<le> 90)"

definition is_lower :: "char \<Rightarrow> bool" where
  "is_lower c = (let n = of_char c :: nat in 97 \<le> n \<and> n \<le> 122)"

definition lower_char :: "char \<Rightarrow> char" where
  "lower_char c = (if is_upper c then char_of (of_char c + (32::nat)) else c)"

definition upper_char :: "char \<Rightarrow> char" where
  "upper_char c = (if is_lower c then char_of (of_char c - (32::nat)) else c)"

definition str_lower :: "string \<Rightarrow> string" where
  \<comment> \<open>\<open>str.lower()\<close>\<close>
  "str_lower s = map lower_char s"

definition str_upper :: "string \<Rightarrow> string" where
  \<comment> \<open>\<open>str.upper()\<close>\<close>
  "str_upper s = map upper_char s"

fun title_from :: "bool \<Rightarrow> string \<Rightarrow> string" where
  "title_from prev [] = []"
| "title_from prev (c # cs) =
     (if is_upper c \<or> is_lower c
      then (if prev then lower_char c else upper_char c) # title_from True cs
      else c # title_from False cs)"

definition str_title :: "string \<Rightarrow> string" where
  \<comment> \<open>\<open>str.title()\<close>: a letter after a letter is lowered, any other letter is raised\<close>
  "str_title s = title_from False s"

definition py_lower :: "json \<Rightarrow> py_exception + string" where
  \<comment> \<open>\<open>v.lower()\<close>: only a string has the method\<close>
  "py_lower v = (case v of JStr s \<Rightarrow> Inr (str_lower s) | _ \<Rightarrow> Inl AttributeError)"

definition is_space :: "char \<Rightarrow> bool" where
  "is_space c = (let n = of_char c :: nat in (9 \<le> n \<and> n \<le> 13) \<or> (28 \<le> n \<and> n \<le> 32))"

definition str_strip :: "string \<Rightarrow> string" where
  "str_strip s = rev (dropWhile is_space (rev (dropWhile is_space s)))"

definition digit_of :: "char \<Rightarrow> nat option" where
  "digit_of c = (let n = of_char c :: nat in if 48 \<le> n \<and> n \<le> 57 then Some (n - 48) else None)"

fun digits_value :: "string \<Rightarrow> nat \<Rightarrow> nat option" where
  "digits_value [] acc = Some acc"
| "digits_value (c # cs) acc =
     (if c = CHR ''_''
      then (case cs of
              [] \<Rightarrow> None
            | d # _ \<Rightarrow> (case digit_of d of None \<Rightarrow> None | Some _ \<Rightarrow> digits_value cs acc))
      else (case digit_of c of None \<Rightarrow> None | Some d \<Rightarrow> digits_value cs (10 * acc + d)))"

definition int_of_string :: "string \<Rightarrow> int option" where
  \<comment> \<open>\<open>int(s)\<close> on a string: surrounding whitespace, a sign, decimal digits with single
      underscores between them\<close>
  "int_of_string s =
     (let t = str_strip s;
          neg = (case t of [] \<Rightarrow> False | c # _ \<Rightarrow> c = CHR ''-'');
          u = (case t of [] \<Rightarrow> [] | c # r \<Rightarrow> if c = CHR ''-'' \<or> c = CHR ''+'' then r else t)
      in case u of
           [] \<Rightarrow> None
         | d # _ \<Rightarrow>
             (case digit_of d of
                None \<Rightarrow> None
              | Some _ \<Rightarrow> map_option (\<lambda>n. if neg then - int n else int n) (digits_value u 0)))"

definition py_int :: "json \<Rightarrow> py_exception + int" where
  \<comment> \<open>\<open>int(v)\<close>: a number is truncated towards zero\<close>
  "py_int v =
     (case v of
        JNull \<Rightarrow> Inl TypeError
      | JBool b \<Rightarrow> Inr (if b then 1 else 0)
      | JNum r \<Rightarrow> Inr (if 0 \<le> r then \<lfloor>r\<rfloor> else \<lceil>r\<rceil>)
      | JStr s \<Rightarrow> (case int_of_string s of
                    None \<Rightarrow> Inl (ValueError ''invalid literal for int() with base 10'')
                  | Some n \<Rightarrow> Inr n)
      | JOther \<Rightarrow> Inl TypeError)"

definition truthy :: "json \<Rightarrow> bool" where
  \<comment> \<open>the truth value \<open>v or d\<close> tests; the wrapper of the cache has refused an array or
      an object before the body reads one\<close>
  "truthy v =
     (case v of
        JNull \<Rightarrow> False
      | JBool b \<Rightarrow> b
      | JNum r \<Rightarrow> r \<noteq> 0
      | JStr s \<Rightarrow> s \<noteq> []
      | JOther \<Rightarrow> True)"

definition hashable :: "json \<Rightarrow> bool" where
  "hashable v = (case v of JOther \<Rightarrow> False | _ \<Rightarrow> True)"

definition key_part :: "json \<Rightarrow> json" where
  \<comment> \<open>Python's \<open>==\<close> and \<open>hash\<close> identify \<open>True\<close> with 1 and \<open>False\<close> with 0\<close>
  "key_part v = (case v of JBool b \<Rightarrow> JNum (if b then 1 else 0) | _ \<Rightarrow> v)"

definition dict_get :: "(string \<rightharpoonup> json) \<Rightarrow> string \<Rightarrow> json \<Rightarrow> json" where
  \<comment> \<open>\<open>data.get(k, default)\<close>\<close>
  "dict_get d k dflt = (case d k of None \<Rightarrow> dflt | Some v \<Rightarrow> v)"

section \<open>Zone catalog\<close>

record coords =
  coord_lat :: json
  coord_lon :: json
  coord_tz :: json

definition ZONE_COORDINATES :: "string \<rightharpoonup> coords" where
  "ZONE_COORDINATES = map_of
     [(''new-york'', \<lparr>coord_lat = JNum (407128 / 10000), coord_lon = JNum (- (740060 / 10000)),
                      coord_tz = JStr ''America/New_York''\<rparr>),
      (''los-angeles'', \<lparr>coord_lat = JNum (340522 / 10000), coord_lon = JNum (- (1182437 / 10000)),
                      coord_tz = JStr ''America/Los_Angeles''\<rparr>),
      (''chicago'', \<lparr>coord_lat = JNum (418781 / 10000), coord_lon = JNum (- (876298 / 10000)),
                      coord_tz = JStr ''America/Chicago''\<rparr>),
      (''miami'', \<lparr>coord_lat = JNum (257617 / 10000), coord_lon = JNum (- (801918 / 10000)),
                      coord_tz = JStr ''America/New_York''\<rparr>),
      (''seattle'', \<lparr>coord_lat = JNum (476062 / 10000), coord_lon = JNum (- (1223321 / 10000)),
                      coord_tz = JStr ''America/Los_Angeles''\<rparr>)]"

definition DEFAULT_TIMEZONE :: string where
  "DEFAULT_TIMEZONE = ''auto''"

definition resolve_coords :: "json \<Rightarrow> json \<Rightarrow> json \<Rightarrow> json \<Rightarrow> py_exception + coords" where
  \<comment> \<open>the first statement of \<open>get_climate_data\<close>: coordinates given directly win over the
      catalog\<close>
  "resolve_coords zone lat lon tz =
     (if lat \<noteq> JNull \<and> lon \<noteq> JNull
      then Inr \<lparr>coord_lat = lat, coord_lon = lon,
                coord_tz = (if truthy tz then tz else JStr DEFAULT_TIMEZONE)\<rparr>
      else (case zone of
              JStr z \<Rightarrow> (case ZONE_COORDINATES (str_lower z) of
                           Some c \<Rightarrow> Inr c
                         | None \<Rightarrow> Inl (Zone_not_available z))
            | _ \<Rightarrow> Inl AttributeError))"

section \<open>The forecast provider, the text service, the renderer and the clock\<close>

record fetch_params =
  latitude :: json
  longitude :: json
  start_date :: int
  end_date :: int
  models :: string
  daily :: "string list"
  timezone :: json

record daily_payload =
  time :: "int list"
  temperature_2m_mean :: series
  temperature_2m_max :: series
  relative_humidity_2m_mean :: series
  shortwave_radiation_sum :: series
  cloud_cover_mean :: series
  wind_speed_10m_mean :: series

text \<open>
  A forecast request either raises (no connection, a status that is not a success, a body
  that is not JSON, no \<open>daily\<close> or \<open>time\<close> entry) or answers with the seven arrays
  of \<open>daily\<close>: the dates, as day ordinals, and six arrays of numbers in which a JSON
  null is NaN. The arrays may differ in length.
\<close>

datatype provider_result = Raises py_exception | Daily daily_payload

record prompt =
  prompt_zone :: string
  prompt_user_type :: string
  prompt_days :: int
  prompt_metrics :: metrics
  prompt_context :: "string list"

record charts =
  temperature :: string
  solar :: string

text \<open>
  The environment of a run. Dates are day ordinals. \<open>now_start env n\<close> and
  \<open>now_end env n\<close> are the calendar days of the two readings of the clock in the fetch
  that makes the \<open>n\<close>-th forecast request, \<open>provider env n\<close> is the outcome of that
  request, \<open>text_service env n\<close> the outcome of the \<open>n\<close>-th generation call
  (\<open>Inl\<close> the text of the exception raised, \<open>Inr\<close> the text generated) and
  \<open>renderer env\<close> the two charts drawn from a frame and a title. The prompt is kept as
  the values its template embeds. Time stamps and file names of responses are left out.
\<close>

record env =
  now_start :: "nat \<Rightarrow> int"
  now_end :: "nat \<Rightarrow> int"
  provider :: "nat \<Rightarrow> fetch_params \<Rightarrow> provider_result"
  text_service :: "nat \<Rightarrow> prompt \<Rightarrow> string + string"
  renderer :: "dataframe \<Rightarrow> string \<Rightarrow> py_exception + charts"

section \<open>The state of the server\<close>

type_synonym cache_key = "json \<times> int \<times> json \<times> json \<times> json"

text \<open>
  Data frames are objects: \<open>heap\<close> holds them, and an address is an index into it. The
  cache of \<open>get_climate_data\<close> maps a key to the address of the frame the call returned,
  the entry used last first. The two counters count the forecast requests and the
  generation calls made so far.
\<close>

record state =
  heap :: "dataframe list"
  cache :: "(cache_key \<times> nat) list"
  fetch_calls :: nat
  gen_calls :: nat

definition init_state :: state where
  "init_state = \<lparr>heap = [], cache = [], fetch_calls = 0, gen_calls = 0\<rparr>"

section \<open>Forecast fetcher and cache\<close>

definition frame_of_payload :: "daily_payload \<Rightarrow> py_exception + dataframe" where
  \<comment> \<open>\<open>pd.DataFrame(data['daily'])\<close>, the conversion of \<open>time\<close> and the renaming of
      the columns\<close>
  "frame_of_payload p =
     (if length (temperature_2m_mean p) = length (time p)
         \<and> length (temperature_2m_max p) = length (time p)
         \<and> length (relative_humidity_2m_mean p) = length (time p)
         \<and> length (shortwave_radiation_sum p) = length (time p)
         \<and> length (cloud_cover_mean p) = length (time p)
         \<and> length (wind_speed_10m_mean p) = length (time p)
      then Inr \<lparr>Date = time p,
                Avg_Temp = temperature_2m_mean p,
                Max_Temp = temperature_2m_max p,
                Relative_Humidity = relative_humidity_2m_mean p,
                Solar_Radiation = shortwave_radiation_sum p,
                Cloud_Cover = cloud_cover_mean p,
                Wind_Speed = wind_speed_10m_mean p,
                CDD = None,
                Solar_Potential = None\<rparr>
      else Inl (ValueError ''All arrays must be of the same length''))"

definition request_params :: "coords \<Rightarrow> int \<Rightarrow> int \<Rightarrow> fetch_params" where
  "request_params c start end =
     \<lparr>latitude = coord_lat c,
      longitude = coord_lon c,
      start_date = start,
      end_date = end,
      models = ''MRI_AGCM3_2_S'',
      daily = [''temperature_2m_mean'', ''temperature_2m_max'', ''relative_humidity_2m_mean'',
               ''shortwave_radiation_sum'', ''cloud_cover_mean'', ''wind_speed_10m_mean''],
      timezone = coord_tz c\<rparr>"

definition requested_days :: "fetch_params \<Rightarrow> int list" where
  \<comment> \<open>the days a request asks for when both of its end points count\<close>
  "requested_days p = [start_date p..end_date p]"

definition get_climate_data_wrapped ::
  "env \<Rightarrow> state \<Rightarrow> json \<Rightarrow> int \<Rightarrow> json \<Rightarrow> json \<Rightarrow> json \<Rightarrow> (py_exception + dataframe) \<times> state" where
  \<comment> \<open>the body of \<open>get_climate_data\<close>, which the cache runs on a miss\<close>
  "get_climate_data_wrapped env s zone days_ahead lat lon tz =
     (case resolve_coords zone lat lon tz of
        Inl e \<Rightarrow> (Inl e, s)
      | Inr c \<Rightarrow>
          (let n = fetch_calls s;
               start = now_start env n;
               end = now_end env n + days_ahead;
               s' = s\<lparr>fetch_calls := n + 1\<rparr>
           in case provider env n (request_params c start end) of
                Raises e \<Rightarrow> (Inl e, s')
              | Daily p \<Rightarrow> (frame_of_payload p, s')))"

definition maxsize :: nat where
  "maxsize = 100"

definition make_key :: "json \<Rightarrow> int \<Rightarrow> json \<Rightarrow> json \<Rightarrow> json \<Rightarrow> cache_key" where
  "make_key zone days_ahead lat lon tz =
     (key_part zone, days_ahead, key_part lat, key_part lon, key_part tz)"

definition lru_touch :: "cache_key \<Rightarrow> nat \<Rightarrow> (cache_key \<times> nat) list \<Rightarrow> (cache_key \<times> nat) list" where
  \<comment> \<open>a hit makes the entry the one used last\<close>
  "lru_touch k a c = (k, a) # filter (\<lambda>e. fst e \<noteq> k) c"

definition lru_insert :: "cache_key \<Rightarrow> nat \<Rightarrow> (cache_key \<times> nat) list \<Rightarrow> (cache_key \<times> nat) list" where
  \<comment> \<open>a new entry; a full cache drops the entry used longest ago\<close>
  "lru_insert k a c = (k, a) # (if maxsize \<le> length c then butlast c else c)"

definition get_climate_data ::
  "env \<Rightarrow> state \<Rightarrow> json \<Rightarrow> int \<Rightarrow> json \<Rightarrow> json \<Rightarrow> json \<Rightarrow> (py_exception + nat) \<times> state" where
  \<comment> \<open>\<open>lru_cache(maxsize=100)\<close> around the body: the result is the address of a frame; a
      call that raises stores nothing\<close>
  "get_climate_data env s zone days_ahead lat lon tz =
     (if hashable zone \<and> hashable lat \<and> hashable lon \<and> hashable tz
      then (let k = make_key zone days_ahead lat lon tz
            in case map_of (cache s) k of
                 Some a \<Rightarrow> (Inr a, s\<lparr>cache := lru_touch k a (cache s)\<rparr>)
               | None \<Rightarrow>
                   (case get_climate_data_wrapped env s zone days_ahead lat lon tz of
                      (Inl e, s') \<Rightarrow> (Inl e, s')
                    | (Inr df, s') \<Rightarrow>
                        (Inr (length (heap s')),
                         s'\<lparr>heap := heap s' @ [df],
                            cache := lru_insert k (length (heap s')) (cache s')\<rparr>)))
      else (Inl TypeError, s))"

section \<open>Advisory generator\<close>

definition user_context :: "string \<rightharpoonup> string list" where
  "user_context = map_of
     [(''home'',
       [''Focus on practical actions for families:'',
        ''- Efficient use of air conditioning and fans'',
        ''- Taking advantage of natural light and ventilation'',
        ''- Consideration of residential solar panels'',
        ''- Adjusting appliance usage schedules'']),
      (''industry'',
       [''Focus on industrial optimization:'',
        ''- Load shifting to off-peak hours'',
        ''- Predictive maintenance of HVAC systems'',
        ''- Cogeneration and energy storage'',
        ''- Zone-based climate control automation''])]"

definition fallback_suggestion :: "string \<Rightarrow> string" where
  \<comment> \<open>the string of the \<open>except\<close> branch; it starts with the UTF-8 bytes of the warning
      sign\<close>
  "fallback_suggestion e =
     [CHR 0xE2, CHR 0x9A, CHR 0xA0, CHR 0xEF, CHR 0xB8, CHR 0x8F]
     @ '' Error generating suggestion: '' @ e @ [CHR 0x0A, CHR 0x0A]
     @ ''Basic suggestion: Given the projected climate conditions, consider optimizing climate control usage during peak hours.''"

definition generate_ai_suggestion ::
  "env \<Rightarrow> state \<Rightarrow> metrics \<Rightarrow> string \<Rightarrow> json \<Rightarrow> int \<Rightarrow> (py_exception + string) \<times> state" where
  \<comment> \<open>the prompt is built outside the \<open>try\<close>: what raises there leaves the function\<close>
  "generate_ai_suggestion env s m user_type zone days =
     (case zone of
        JStr z \<Rightarrow>
          (case user_context user_type of
             None \<Rightarrow> (Inl (KeyError user_type), s)
           | Some ctx \<Rightarrow>
               (let p = \<lparr>prompt_zone = str_title z, prompt_user_type = str_upper user_type,
                         prompt_days = days, prompt_metrics = m, prompt_context = ctx\<rparr>;
                    s' = s\<lparr>gen_calls := gen_calls s + 1\<rparr>
                in case text_service env (gen_calls s) p of
                     Inr text \<Rightarrow> (Inr text, s')
                   | Inl e \<Rightarrow> (Inr (fallback_suggestion e), s')))
      | _ \<Rightarrow> (Inl AttributeError, s))"

section \<open>Chart renderer\<close>

definition generate_charts :: "env \<Rightarrow> dataframe \<Rightarrow> json \<Rightarrow> py_exception + charts" where
  "generate_charts env df zone =
     (case zone of JStr z \<Rightarrow> renderer env df (str_title z) | _ \<Rightarrow> Inl AttributeError)"

section \<open>API endpoints\<close>

record analysis =
  resp_user_type :: string
  resp_zone :: json
  resp_days :: int
  resp_metrics :: metrics
  resp_suggestion :: string
  resp_charts :: charts

datatype bad_request = Bad_user_type | Zone_not_predefined json | Days_out_of_range

datatype response =
    Success analysis
  | Bad_request bad_request
  | Server_error py_exception
  | Csv_file dataframe
  | Export_error py_exception

definition response_keys :: "response \<Rightarrow> string list" where
  \<comment> \<open>the keys of the JSON object a response carries; a file carries none\<close>
  "response_keys r =
     (case r of
        Success _ \<Rightarrow> [''success'', ''timestamp'', ''parameters'', ''metrics'', ''suggestion'', ''charts'']
      | Bad_request _ \<Rightarrow> [''error'']
      | Server_error _ \<Rightarrow> [''success'', ''error'', ''timestamp'']
      | Csv_file _ \<Rightarrow> []
      | Export_error _ \<Rightarrow> [''success'', ''error''])"

definition analyze_run ::
  "env \<Rightarrow> state \<Rightarrow> string \<Rightarrow> json \<Rightarrow> int \<Rightarrow> json \<Rightarrow> json \<Rightarrow> json \<Rightarrow> response \<times> state" where
  \<comment> \<open>\<open>analyze\<close> from step 1 on, with the parameters it has validated. The frame is
      read and written at the address the cache returned, which is in range in every state
      the server reaches (\<open>wf_state\<close>)\<close>
  "analyze_run env s user_type zone days lat lon tz =
     (case get_climate_data env s zone days lat lon tz of
        (Inl e, s1) \<Rightarrow> (Server_error e, s1)
      | (Inr a, s1) \<Rightarrow>
          (let r = calculate_energy_metrics (heap s1 ! a);
               s2 = s1\<lparr>heap := (heap s1)[a := snd r]\<rparr>
           in case generate_ai_suggestion env s2 (fst r) user_type zone days of
                (Inl e, s3) \<Rightarrow> (Server_error e, s3)
              | (Inr suggestion, s3) \<Rightarrow>
                  (case generate_charts env (heap s3 ! a) zone of
                     Inl e \<Rightarrow> (Server_error e, s3)
                   | Inr ch \<Rightarrow>
                       (Success \<lparr>resp_user_type = user_type, resp_zone = zone,
                                 resp_days = days, resp_metrics = fst r,
                                 resp_suggestion = suggestion, resp_charts = ch\<rparr>, s3))))"

type_synonym analyze_args = "string \<times> json \<times> int \<times> json \<times> json \<times> json"

definition analyze_input :: "(string \<rightharpoonup> json) \<Rightarrow> response + analyze_args" where
  \<comment> \<open>\<open>analyze\<close> up to step 1: the fields of the body with their defaults, and the three
      checks in the order of the source. \<open>Inl\<close> is the response of a request that is
      refused, \<open>Inr\<close> the arguments of one that goes on\<close>
  "analyze_input data =
     (case py_lower (dict_get data ''user_type'' (JStr ''home'')) of
        Inl e \<Rightarrow> Inl (Server_error e)
      | Inr user_type \<Rightarrow>
          (let zone = dict_get data ''zona'' (JStr ''new-york'')
           in case py_int (dict_get data ''days'' (JNum 30)) of
                Inl e \<Rightarrow> Inl (Server_error e)
              | Inr days \<Rightarrow>
                  (let lat = dict_get data ''lat'' JNull;
                       lon = dict_get data ''lon'' JNull;
                       tz = dict_get data ''tz'' JNull
                   in if user_type \<noteq> ''home'' \<and> user_type \<noteq> ''industry''
                      then Inl (Bad_request Bad_user_type)
                      else (case py_lower zone of
                              Inl e \<Rightarrow> Inl (Server_error e)
                            | Inr zone_lower \<Rightarrow>
                                if ZONE_COORDINATES zone_lower = None \<and> (lat = JNull \<or> lon = JNull)
                                then Inl (Bad_request (Zone_not_predefined zone))
                                else if \<not> (7 \<le> days \<and> days \<le> 365)
                                then Inl (Bad_request Days_out_of_range)
                                else Inr (user_type, zone, days, lat, lon, tz)))))"

definition analyze :: "env \<Rightarrow> state \<Rightarrow> (string \<rightharpoonup> json) \<Rightarrow> response \<times> state" where
  \<comment> \<open>the endpoint on a body that is a JSON object\<close>
  "analyze env s data =
     (case analyze_input data of
        Inl r \<Rightarrow> (r, s)
      | Inr (user_type, zone, days, lat, lon, tz) \<Rightarrow>
          analyze_run env s user_type zone days lat lon tz)"



definition export_csv :: "env \<Rightarrow> state \<Rightarrow> (string \<rightharpoonup> json) \<Rightarrow> response \<times> state" where
  "export_csv env s data =
     (let zone = dict_get data ''zona'' (JStr ''new-york'')
      in case py_int (dict_get data ''days'' (JNum 30)) of
           Inl e \<Rightarrow> (Export_error e, s)
         | Inr days \<Rightarrow>
             (let lat = dict_get data ''lat'' JNull;
                  lon = dict_get data ''lon'' JNull;
                  tz = dict_get data ''tz'' JNull
              in case get_climate_data env s zone days lat lon tz of
                   (Inl e, s1) \<Rightarrow> (Export_error e, s1)
                 | (Inr a, s1) \<Rightarrow> (Csv_file (heap s1 ! a), s1)))"

section \<open>States the server can reach\<close>

definition key_resolves :: "cache_key \<Rightarrow> bool" where
  "key_resolves k = (case k of (z, d, la, lo, t) \<Rightarrow> \<not> isl (resolve_coords z la lo t))"

definition wf_state :: "state \<Rightarrow> bool" where
  \<comment> \<open>what the cache of a running server satisfies: an entry refers to a frame that exists
      and belongs to a call that returned, a key has one entry, and there are at most
      \<open>maxsize\<close> entries\<close>
  "wf_state s =
     ((\<forall>e \<in> set (cache s). snd e < length (heap s) \<and> key_resolves (fst e))
      \<and> distinct (map fst (cache s))
      \<and> length (cache s) \<le> maxsize)"

inductive reachable :: "env \<Rightarrow> state \<Rightarrow> bool" for env :: env where
  reachable_init: "reachable env init_state"
| reachable_analyze: "reachable env s \<Longrightarrow> reachable env (snd (analyze env s data))"
| reachable_export_csv: "reachable env s \<Longrightarrow> reachable env (snd (export_csv env s data))"

section \<open>Example environments\<close>

definition steady_payload :: "fetch_params \<Rightarrow> daily_payload" where
  \<comment> \<open>a provider without gaps: one record for every day from \<open>start_date\<close> to
      \<open>end_date\<close>, both included\<close>
  "steady_payload p =
     (let n = nat (end_date p - start_date p + 1)
      in \<lparr>time = map (\<lambda>i. start_date p + int i) [0..<n],
          temperature_2m_mean = replicate n (Fin 26),
          temperature_2m_max = replicate n (Fin 31),
          relative_humidity_2m_mean = replicate n (Fin 55),
          shortwave_radiation_sum = replicate n (Fin 20),
          cloud_cover_mean = replicate n (Fin 25),
          wind_speed_10m_mean = replicate n (Fin 12)\<rparr>)"

definition example_env :: env where
  "example_env =
     \<lparr>now_start = (\<lambda>n. 739000),
      now_end = (\<lambda>n. 739000),
      provider = (\<lambda>n p. Daily (steady_payload p)),
      text_service = (\<lambda>n p. Inr ''### Pre-cool in the morning''),
      renderer = (\<lambda>df z. Inr \<lparr>temperature = ''iVBORw0KGgo='', solar = ''iVBORw0KGgo=''\<rparr>)\<rparr>"

definition provider_down_env :: env where
  \<comment> \<open>the forecast provider answers every request with status 503\<close>
  "provider_down_env = example_env\<lparr>provider := (\<lambda>n p. Raises (HTTPError ''503 Server Error''))\<rparr>"

definition text_down_env :: env where
  \<comment> \<open>the text service raises on every call\<close>
  "text_down_env = example_env\<lparr>text_service := (\<lambda>n p. Inl ''429 quota exceeded'')\<rparr>"


definition crowded_state :: state where
  \<comment> \<open>a full cache: a hundred entries for miami with the horizons 7 to 106, the one for 7
      days used last and the one for 106 days used longest ago\<close>
  "crowded_state =
     \<lparr>heap = replicate 100
        \<lparr>Date = [], Avg_Temp = [], Max_Temp = [], Relative_Humidity = [], Solar_Radiation = [],
         Cloud_Cover = [], Wind_Speed = [], CDD = None, Solar_Potential = None\<rparr>,
      cache = map (\<lambda>i. ((JStr ''miami'', 7 + int i, JNull, JNull, JNull), i)) [0..<100],
      fetch_calls = 100,
      gen_calls = 0\<rparr>"

definition week_frame :: dataframe where
  \<comment> \<open>the frame \<open>example_env\<close> yields for a horizon of 7 days\<close>
  "week_frame =
     \<lparr>Date = [739000, 739001, 739002, 739003, 739004, 739005, 739006, 739007],
      Avg_Temp = [Fin 26, Fin 26, Fin 26, Fin 26, Fin 26, Fin 26, Fin 26, Fin 26],
      Max_Temp = [Fin 31, Fin 31, Fin 31, Fin 31, Fin 31, Fin 31, Fin 31, Fin 31],
      Relative_Humidity = [Fin 55, Fin 55, Fin 55, Fin 55, Fin 55, Fin 55, Fin 55, Fin 55],
      Solar_Radiation = [Fin 20, Fin 20, Fin 20, Fin 20, Fin 20, Fin 20, Fin 20, Fin 20],
      Cloud_Cover = [Fin 25, Fin 25, Fin 25, Fin 25, Fin 25, Fin 25, Fin 25, Fin 25],
      Wind_Speed = [Fin 12, Fin 12, Fin 12, Fin 12, Fin 12, Fin 12, Fin 12, Fin 12],
      CDD = None,
      Solar_Potential = None\<rparr>"

definition week_metrics :: metrics where
  "week_metrics =
     \<lparr>avg_temp = Fin 26, max_temp = Fin 31, min_temp = Fin 26, cdd_total = Fin 16,
      extreme_heat_days = 0, comfortable_days = 0, avg_radiation = Fin 20,
      avg_solar_potential = Fin 15, optimal_solar_days = 8, avg_humidity = Fin 55,
      high_demand_days = 0\<rparr>"

definition week_state :: state where
  \<comment> \<open>the server after one \<open>analyze\<close> of new-york for 7 days in \<open>example_env\<close>\<close>
  "week_state =
     \<lparr>heap = [week_frame\<lparr>CDD := Some (replicate 8 (Fin 2)),
                         Solar_Potential := Some (replicate 8 (Fin 15))\<rparr>],
      cache = [((JStr ''new-york'', 7, JNull, JNull, JNull), 0)],
      fetch_calls = 1, gen_calls = 1\<rparr>"

section \<open>Cooling degree days\<close>









section \<open>Request validation\<close>





lemma str_lower_home: "str_lower ''home'' = ''home''"
  by (simp add: str_lower_def lower_char_def is_upper_def)

lemma str_lower_new_york: "str_lower ''new-york'' = ''new-york''"
  by (simp add: str_lower_def lower_char_def is_upper_def)













text \<open>
  Claim C2. A horizon outside 7..365 is to be refused before any forecast request, by every
  operation that fetches. \<open>analyze\<close> does so: for 6 and for 366 days it answers
  \<open>Days_out_of_range\<close> and leaves the state as it was. \<open>export_csv\<close> has no such
  check: started on the empty cache with 6 days, and with 366 days, it makes one forecast
  request.
\<close>

theorem export_csv_unvalidated_horizon:
  "fetch_calls (snd (export_csv example_env init_state
       [''zona'' \<mapsto> JStr ''new-york'', ''days'' \<mapsto> JNum 6])) = 1
   \<and> fetch_calls (snd (export_csv example_env init_state
       [''zona'' \<mapsto> JStr ''new-york'', ''days'' \<mapsto> JNum 366])) = 1
   \<and> analyze example_env init_state [''zona'' \<mapsto> JStr ''new-york'', ''days'' \<mapsto> JNum 6]
       = (Bad_request Days_out_of_range, init_state)
   \<and> analyze example_env init_state [''zona'' \<mapsto> JStr ''new-york'', ''days'' \<mapsto> JNum 366]
       = (Bad_request Days_out_of_range, init_state)"
  by (simp add: export_csv_def analyze_def analyze_input_def dict_get_def py_int_def py_lower_def
      get_climate_data_def hashable_def make_key_def init_state_def get_climate_data_wrapped_def
      resolve_coords_def str_lower_def lower_char_def is_upper_def ZONE_COORDINATES_def
      example_env_def key_part_def steady_payload_def frame_of_payload_def request_params_def
      lru_insert_def maxsize_def Let_def)

section \<open>Facts about the cache\<close>

lemma key_part_hashable_null: "(key_part v = JNull) = (v = JNull)"
  by (cases v) (simp_all add: key_part_def)

lemma key_part_JStr: "key_part (JStr z) = JStr z"
  by (simp add: key_part_def)

lemma resolve_key_part:
  "isl (resolve_coords (key_part zone) (key_part lat) (key_part lon) (key_part tz))
   = isl (resolve_coords zone lat lon tz)"
proof -
  have z: "(case key_part zone of JStr z \<Rightarrow> f z | _ \<Rightarrow> g) = (case zone of JStr z \<Rightarrow> f z | _ \<Rightarrow> g)"
    for f :: "string \<Rightarrow> py_exception + coords" and g
    by (cases zone) (simp_all add: key_part_def)
  show ?thesis
    unfolding resolve_coords_def key_part_hashable_null z by simp
qed

lemma key_resolves_make_key:
  "key_resolves (make_key zone days lat lon tz) = (\<not> isl (resolve_coords zone lat lon tz))"
  by (simp add: key_resolves_def make_key_def resolve_key_part)

lemma wrapped_resolve_fails:
  "resolve_coords zone lat lon tz = Inl e \<Longrightarrow>
   get_climate_data_wrapped env s zone days lat lon tz = (Inl e, s)"
  by (simp add: get_climate_data_wrapped_def)

lemma wrapped_resolved:
  "resolve_coords zone lat lon tz = Inr c \<Longrightarrow>
   get_climate_data_wrapped env s zone days lat lon tz =
     (case provider env (fetch_calls s)
             (request_params c (now_start env (fetch_calls s)) (now_end env (fetch_calls s) + days)) of
        Raises e \<Rightarrow> (Inl e, s\<lparr>fetch_calls := fetch_calls s + 1\<rparr>)
      | Daily p \<Rightarrow> (frame_of_payload p, s\<lparr>fetch_calls := fetch_calls s + 1\<rparr>))"
  by (simp add: get_climate_data_wrapped_def Let_def split: provider_result.splits)

lemma wrapped_state:
  "snd (get_climate_data_wrapped env s zone days lat lon tz) =
     (if isl (resolve_coords zone lat lon tz) then s else s\<lparr>fetch_calls := fetch_calls s + 1\<rparr>)"
  by (cases "resolve_coords zone lat lon tz")
     (simp_all add: wrapped_resolve_fails wrapped_resolved split: provider_result.splits)

lemma wrapped_success_resolves:
  "get_climate_data_wrapped env s zone days lat lon tz = (Inr df, s') \<Longrightarrow>
   \<not> isl (resolve_coords zone lat lon tz)"
  by (cases "resolve_coords zone lat lon tz") (simp_all add: wrapped_resolve_fails)

lemma get_climate_data_unhashable:
  "\<not> (hashable zone \<and> hashable lat \<and> hashable lon \<and> hashable tz) \<Longrightarrow>
   get_climate_data env s zone days lat lon tz = (Inl TypeError, s)"
  by (auto simp: get_climate_data_def)

lemma get_climate_data_hit:
  assumes "hashable zone" "hashable lat" "hashable lon" "hashable tz"
      and "map_of (cache s) (make_key zone days lat lon tz) = Some a"
  shows "get_climate_data env s zone days lat lon tz =
     (Inr a, s\<lparr>cache := lru_touch (make_key zone days lat lon tz) a (cache s)\<rparr>)"
  using assms by (simp add: get_climate_data_def)

lemma get_climate_data_miss:
  assumes "hashable zone" "hashable lat" "hashable lon" "hashable tz"
      and "map_of (cache s) (make_key zone days lat lon tz) = None"
  shows "get_climate_data env s zone days lat lon tz =
     (case get_climate_data_wrapped env s zone days lat lon tz of
        (Inl e, s') \<Rightarrow> (Inl e, s')
      | (Inr df, s') \<Rightarrow>
          (Inr (length (heap s')),
           s'\<lparr>heap := heap s' @ [df],
              cache := lru_insert (make_key zone days lat lon tz) (length (heap s')) (cache s')\<rparr>))"
  using assms by (simp add: get_climate_data_def)




section \<open>The invariant of the cache\<close>

lemma wf_state_init: "wf_state init_state"
  by (simp add: wf_state_def init_state_def)

lemma wf_state_fetch_calls [simp]: "wf_state (s\<lparr>fetch_calls := n\<rparr>) = wf_state s"
  by (simp add: wf_state_def)

lemma wf_state_gen_calls [simp]: "wf_state (s\<lparr>gen_calls := n\<rparr>) = wf_state s"
  by (simp add: wf_state_def)

lemma wf_state_heap_update [simp]: "wf_state (s\<lparr>heap := (heap s)[a := df]\<rparr>) = wf_state s"
  by (simp add: wf_state_def)

lemma wf_lru_touch:
  assumes "wf_state s" and "(k, a) \<in> set (cache s)"
  shows "wf_state (s\<lparr>cache := lru_touch k a (cache s)\<rparr>)"
proof -
  have "length (filter (\<lambda>e. fst e \<noteq> k) (cache s)) < length (cache s)"
    using assms(2) by (intro length_filter_less[of "(k, a)"]) simp_all
  moreover have "distinct (map fst (filter (\<lambda>e. fst e \<noteq> k) (cache s)))"
    using assms(1) by (simp add: wf_state_def distinct_map_filter)
  ultimately show ?thesis
    using assms by (auto simp: wf_state_def lru_touch_def)
qed

lemma wf_lru_insert:
  assumes "wf_state s" and "map_of (cache s) k = None" and "key_resolves k"
  shows "wf_state (s\<lparr>heap := heap s @ [df], cache := lru_insert k (length (heap s)) (cache s)\<rparr>)"
proof -
  let ?c = "if maxsize \<le> length (cache s) then butlast (cache s) else cache s"
  have sub: "set ?c \<subseteq> set (cache s)"
    by (auto dest: in_set_butlastD)
  have k: "k \<notin> fst ` set (cache s)"
    using assms(2) by (simp add: map_of_eq_None_iff)
  have d: "distinct (map fst ?c)"
    using assms(1) by (simp add: wf_state_def map_butlast distinct_butlast)
  have l: "Suc (length ?c) \<le> maxsize"
    using assms(1) by (auto simp: wf_state_def maxsize_def)
  have b: "\<forall>e \<in> set ?c. snd e < Suc (length (heap s)) \<and> key_resolves (fst e)"
    using assms(1) sub by (fastforce simp: wf_state_def)
  have "k \<notin> fst ` set ?c"
    using k sub by blast
  with d l b assms(3) show ?thesis
    by (simp add: wf_state_def lru_insert_def)
qed

lemma wf_get_climate_data:
  assumes "wf_state s"
  shows "wf_state (snd (get_climate_data env s zone days lat lon tz))"
proof (cases "hashable zone \<and> hashable lat \<and> hashable lon \<and> hashable tz")
  case False
  then show ?thesis using assms by (simp add: get_climate_data_unhashable)
next
  case h: True
  show ?thesis
  proof (cases "map_of (cache s) (make_key zone days lat lon tz)")
    case (Some a)
    then have "(make_key zone days lat lon tz, a) \<in> set (cache s)"
      by (rule map_of_SomeD)
    with assms Some h show ?thesis
      by (simp add: get_climate_data_hit wf_lru_touch)
  next
    case None
    obtain r s' where w: "get_climate_data_wrapped env s zone days lat lon tz = (r, s')"
      by (cases "get_climate_data_wrapped env s zone days lat lon tz")
    have s': "s' = (if isl (resolve_coords zone lat lon tz) then s
                     else s\<lparr>fetch_calls := fetch_calls s + 1\<rparr>)"
      using wrapped_state[of env s zone days lat lon tz] w by simp
    have wf': "wf_state s'" and c': "cache s' = cache s"
      using assms s' by (simp_all split: if_splits)
    show ?thesis
    proof (cases r)
      case (Inl e)
      with h None w wf' show ?thesis by (simp add: get_climate_data_miss)
    next
      case (Inr df)
      with w have "key_resolves (make_key zone days lat lon tz)"
        by (simp add: key_resolves_make_key wrapped_success_resolves)
      with wf' None c' have "wf_state (s'\<lparr>heap := heap s' @ [df],
          cache := lru_insert (make_key zone days lat lon tz) (length (heap s')) (cache s')\<rparr>)"
        by (intro wf_lru_insert) simp_all
      with h None w Inr show ?thesis by (simp add: get_climate_data_miss)
    qed
  qed
qed

lemma generate_ai_suggestion_state:
  "snd (generate_ai_suggestion env s m u zone days) = s
   \<or> snd (generate_ai_suggestion env s m u zone days) = s\<lparr>gen_calls := gen_calls s + 1\<rparr>"
  by (simp add: generate_ai_suggestion_def Let_def split: json.splits option.splits sum.splits)

lemma wf_generate_ai_suggestion:
  "wf_state s \<Longrightarrow> wf_state (snd (generate_ai_suggestion env s m u zone days))"
  using generate_ai_suggestion_state[of env s m u zone days] by auto

lemma wf_analyze_run:
  assumes "wf_state s"
  shows "wf_state (snd (analyze_run env s u zone days lat lon tz))"
proof -
  obtain r s1 where g: "get_climate_data env s zone days lat lon tz = (r, s1)"
    by (cases "get_climate_data env s zone days lat lon tz")
  have wf1: "wf_state s1"
    using wf_get_climate_data[OF assms, of env zone days lat lon tz] g by simp
  show ?thesis
  proof (cases r)
    case (Inl e)
    with g wf1 show ?thesis by (simp add: analyze_run_def)
  next
    case (Inr a)
    let ?s2 = "s1\<lparr>heap := (heap s1)[a := snd (calculate_energy_metrics (heap s1 ! a))]\<rparr>"
    have "wf_state ?s2" using wf1 by simp
    then have "wf_state (snd (generate_ai_suggestion env ?s2
        (fst (calculate_energy_metrics (heap s1 ! a))) u zone days))"
      by (rule wf_generate_ai_suggestion)
    with g Inr show ?thesis
      by (auto simp: analyze_run_def Let_def split: prod.splits sum.splits)
  qed
qed

lemma wf_analyze: "wf_state s \<Longrightarrow> wf_state (snd (analyze env s data))"
  by (simp add: analyze_def wf_analyze_run split: sum.splits prod.splits)

lemma wf_export_csv:
  assumes "wf_state s"
  shows "wf_state (snd (export_csv env s data))"
proof (cases "py_int (dict_get data ''days'' (JNum 30))")
  case (Inl e)
  with assms show ?thesis by (simp add: export_csv_def)
next
  case (Inr days)
  with wf_get_climate_data[OF assms, of env "dict_get data ''zona'' (JStr ''new-york'')" days
      "dict_get data ''lat'' JNull" "dict_get data ''lon'' JNull" "dict_get data ''tz'' JNull"]
  show ?thesis
    by (auto simp: export_csv_def Let_def split: prod.splits sum.splits)
qed

lemma reachable_wf_state: "reachable env s \<Longrightarrow> wf_state s"
  by (induction rule: reachable.induct) (simp_all add: wf_state_init wf_analyze wf_export_csv)

section \<open>Location resolver\<close>


lemma hashable_JStr: "hashable (JStr z)"
  by (simp add: hashable_def)




lemma new_york_coords:
  "resolve_coords (JStr ''new-york'') JNull JNull JNull =
     Inr \<lparr>coord_lat = JNum (407128 / 10000), coord_lon = JNum (- (740060 / 10000)),
          coord_tz = JStr ''America/New_York''\<rparr>"
  by (simp add: resolve_coords_def ZONE_COORDINATES_def str_lower_new_york)




section \<open>The date range of a fetch\<close>

lemma upto_nat_as_map: "[a..a + int n] = map (\<lambda>i. a + int i) [0..<Suc n]"
proof (induction n)
  case 0
  show ?case by simp
next
  case (Suc n)
  have "[a..a + int (Suc n)] = [a..a + int n] @ [a + int (Suc n)]"
    using upto_rec2[of a "a + int (Suc n)"] by (simp add: add.assoc)
  with Suc show ?case by simp
qed

lemma upto_as_map: "0 \<le> h \<Longrightarrow> [a..a + h] = map (\<lambda>i. a + int i) [0..<nat h + 1]"
  using upto_nat_as_map[of a "nat h"] by simp

lemma length_upto_plus: "0 \<le> h \<Longrightarrow> length [a..a + h] = nat h + 1"
  by (simp add: upto_as_map)

lemma sorted_wrt_upto: "sorted_wrt (<) [a..b]"
  by (simp add: sorted_wrt_iff_nth_less)

lemma frame_of_payload_Inr:
  assumes "frame_of_payload pl = Inr df"
  shows "Date df = time pl"
    and "length (Avg_Temp df) = length (time pl)"
    and "length (Max_Temp df) = length (time pl)"
    and "length (Relative_Humidity df) = length (time pl)"
    and "length (Solar_Radiation df) = length (time pl)"
    and "length (Cloud_Cover df) = length (time pl)"
    and "length (Wind_Speed df) = length (time pl)"
  using assms by (auto simp: frame_of_payload_def split: if_splits)

text \<open>
  Claim C8. For a horizon \<open>h\<close> from 7 to 365, a fetch whose two readings of the clock
  fall on the day \<open>today\<close> asks the provider for \<open>start_date = today\<close> and
  \<open>end_date = today + h\<close>. With both end points counted these are the \<open>h + 1\<close>
  days \<open>today, today + 1, ..., today + h\<close>, in strictly increasing order. The result of
  the fetch is what the provider answers to exactly this request, and when the answer has
  no gaps (its dates are the days asked for, its arrays of one length) the fetch returns a
  series of exactly \<open>h + 1\<close> daily records with strictly increasing dates.
\<close>

theorem fetch_date_range:
  assumes h: "7 \<le> h" "h \<le> 365"
      and res: "resolve_coords zone lat lon tz = Inr c"
      and clock: "now_start env (fetch_calls s) = today" "now_end env (fetch_calls s) = today"
  shows "start_date (request_params c today (today + h)) = today
       \<and> end_date (request_params c today (today + h)) = today + h
       \<and> requested_days (request_params c today (today + h)) =
           map (\<lambda>i. today + int i) [0..<nat h + 1]
       \<and> length (requested_days (request_params c today (today + h))) = nat h + 1
       \<and> sorted_wrt (<) (requested_days (request_params c today (today + h)))
       \<and> get_climate_data_wrapped env s zone h lat lon tz =
           (case provider env (fetch_calls s) (request_params c today (today + h)) of
              Raises e \<Rightarrow> (Inl e, s\<lparr>fetch_calls := fetch_calls s + 1\<rparr>)
            | Daily pl \<Rightarrow> (frame_of_payload pl, s\<lparr>fetch_calls := fetch_calls s + 1\<rparr>))
       \<and> (\<forall>pl df. provider env (fetch_calls s) (request_params c today (today + h)) = Daily pl
                \<and> time pl = requested_days (request_params c today (today + h))
                \<and> frame_of_payload pl = Inr df
              \<longrightarrow> get_climate_data_wrapped env s zone h lat lon tz =
                    (Inr df, s\<lparr>fetch_calls := fetch_calls s + 1\<rparr>)
                  \<and> record_count_is df (nat h + 1)
                  \<and> sorted_wrt (<) (Date df))"
proof -
  let ?p = "request_params c today (today + h)"
  have se: "start_date ?p = today" "end_date ?p = today + h"
    by (simp_all add: request_params_def)
  have days: "requested_days ?p = map (\<lambda>i. today + int i) [0..<nat h + 1]"
    using h by (simp add: requested_days_def se upto_as_map)
  have len: "length (requested_days ?p) = nat h + 1"
    by (simp add: days)
  have sorted: "sorted_wrt (<) (requested_days ?p)"
    unfolding requested_days_def by (rule sorted_wrt_upto)
  have w: "get_climate_data_wrapped env s zone h lat lon tz =
           (case provider env (fetch_calls s) ?p of
              Raises e \<Rightarrow> (Inl e, s\<lparr>fetch_calls := fetch_calls s + 1\<rparr>)
            | Daily pl \<Rightarrow> (frame_of_payload pl, s\<lparr>fetch_calls := fetch_calls s + 1\<rparr>))"
    using wrapped_resolved[OF res, of env s h] clock by simp
  have ret: "get_climate_data_wrapped env s zone h lat lon tz =
                    (Inr df, s\<lparr>fetch_calls := fetch_calls s + 1\<rparr>)
                  \<and> record_count_is df (nat h + 1)
                  \<and> sorted_wrt (<) (Date df)"
    if "provider env (fetch_calls s) ?p = Daily pl" "time pl = requested_days ?p"
       "frame_of_payload pl = Inr df" for pl df
    using that w len sorted frame_of_payload_Inr[OF that(3)]
    by (simp add: record_count_is_def)
  from se days len sorted w ret show ?thesis by blast
qed

lemma example_first_fetch:
  "provider example_env 0 p = Daily (steady_payload p)"
  "now_start example_env 0 = 739000" "now_end example_env 0 = 739000"
  by (simp_all add: example_env_def)

theorem fetch_date_range_witness:
  "get_climate_data_wrapped example_env init_state (JStr ''new-york'') 7 JNull JNull JNull =
     (frame_of_payload (steady_payload
        (request_params \<lparr>coord_lat = JNum (407128 / 10000), coord_lon = JNum (- (740060 / 10000)),
            coord_tz = JStr ''America/New_York''\<rparr> 739000 739007)),
      init_state\<lparr>fetch_calls := 1\<rparr>)
   \<and> (\<exists>df. frame_of_payload (steady_payload
        (request_params \<lparr>coord_lat = JNum (407128 / 10000), coord_lon = JNum (- (740060 / 10000)),
            coord_tz = JStr ''America/New_York''\<rparr> 739000 739007)) = Inr df
        \<and> Date df = [739000, 739001, 739002, 739003, 739004, 739005, 739006, 739007]
        \<and> record_count_is df 8 \<and> sorted_wrt (<) (Date df))"
proof -
  let ?c = "\<lparr>coord_lat = JNum (407128 / 10000), coord_lon = JNum (- (740060 / 10000)),
            coord_tz = JStr ''America/New_York''\<rparr>"
  let ?p = "request_params ?c 739000 (739000 + 7)"
  let ?df = "\<lparr>Date = [739000, 739001, 739002, 739003, 739004, 739005, 739006, 739007],
       Avg_Temp = replicate 8 (Fin 26), Max_Temp = replicate 8 (Fin 31),
       Relative_Humidity = replicate 8 (Fin 55), Solar_Radiation = replicate 8 (Fin 20),
       Cloud_Cover = replicate 8 (Fin 25), Wind_Speed = replicate 8 (Fin 12),
       CDD = None, Solar_Potential = None\<rparr>"
  have clock: "now_start example_env (fetch_calls init_state) = 739000"
     "now_end example_env (fetch_calls init_state) = 739000"
    by (simp_all add: example_env_def)
  have prov: "provider example_env (fetch_calls init_state) ?p = Daily (steady_payload ?p)"
    by (simp add: example_env_def)
  have t: "time (steady_payload ?p) = requested_days ?p"
    by (simp add: steady_payload_def requested_days_def request_params_def upto_as_map [of 7 739000, simplified])
  have f: "frame_of_payload (steady_payload ?p) = Inr ?df"
    by (simp add: steady_payload_def frame_of_payload_def request_params_def Let_def upt_conv_Cons)
  have h: "(7::int) \<le> 7" "(7::int) \<le> 365" by simp_all
  from fetch_date_range[OF h new_york_coords clock] prov t f
  have "get_climate_data_wrapped example_env init_state (JStr ''new-york'') 7 JNull JNull JNull =
          (Inr ?df, init_state\<lparr>fetch_calls := fetch_calls init_state + 1\<rparr>)
       \<and> record_count_is ?df (nat 7 + 1) \<and> sorted_wrt (<) (Date ?df)"
    by blast
  then show ?thesis
    using f by (simp add: init_state_def)
qed

section \<open>Repeated requests\<close>

lemma get_climate_data_returns:
  assumes "get_climate_data env s zone days lat lon tz = (Inr a, s1)"
  shows "hashable zone \<and> hashable lat \<and> hashable lon \<and> hashable tz"
    and "map_of (cache s) (make_key zone days lat lon tz) \<noteq> None \<Longrightarrow>
           map_of (cache s) (make_key zone days lat lon tz) = Some a
           \<and> s1 = s\<lparr>cache := lru_touch (make_key zone days lat lon tz) a (cache s)\<rparr>"
    and "map_of (cache s) (make_key zone days lat lon tz) = None \<Longrightarrow>
           \<exists>df. get_climate_data_wrapped env s zone days lat lon tz =
                  (Inr df, s\<lparr>fetch_calls := fetch_calls s + 1\<rparr>)
              \<and> a = length (heap s)
              \<and> s1 = s\<lparr>fetch_calls := fetch_calls s + 1, heap := heap s @ [df],
                       cache := lru_insert (make_key zone days lat lon tz) (length (heap s)) (cache s)\<rparr>"
proof -
  show h: "hashable zone \<and> hashable lat \<and> hashable lon \<and> hashable tz"
    using assms by (auto simp: get_climate_data_def split: if_splits)
  show "map_of (cache s) (make_key zone days lat lon tz) = Some a
           \<and> s1 = s\<lparr>cache := lru_touch (make_key zone days lat lon tz) a (cache s)\<rparr>"
    if "map_of (cache s) (make_key zone days lat lon tz) \<noteq> None"
    using that assms h by (auto simp: get_climate_data_hit)
  show "\<exists>df. get_climate_data_wrapped env s zone days lat lon tz =
                  (Inr df, s\<lparr>fetch_calls := fetch_calls s + 1\<rparr>)
              \<and> a = length (heap s)
              \<and> s1 = s\<lparr>fetch_calls := fetch_calls s + 1, heap := heap s @ [df],
                       cache := lru_insert (make_key zone days lat lon tz) (length (heap s)) (cache s)\<rparr>"
    if none: "map_of (cache s) (make_key zone days lat lon tz) = None"
  proof -
    obtain r s' where w: "get_climate_data_wrapped env s zone days lat lon tz = (r, s')"
      by (cases "get_climate_data_wrapped env s zone days lat lon tz")
    with assms h none obtain df where r: "r = Inr df"
      by (cases r) (auto simp: get_climate_data_miss)
    have "\<not> isl (resolve_coords zone lat lon tz)"
      using w r by (auto dest: wrapped_success_resolves)
    then have s': "s' = s\<lparr>fetch_calls := fetch_calls s + 1\<rparr>"
      using wrapped_state[of env s zone days lat lon tz] w by simp
    show ?thesis
      using assms h none w r s' by (auto simp: get_climate_data_miss)
  qed
qed

lemma filter_absent_key:
  "map_of c k = None \<Longrightarrow> filter (\<lambda>e. fst e \<noteq> k) c = c"
  by (induction c) (auto split: if_splits)

lemma map_of_butlast_None:
  "map_of c k = None \<Longrightarrow> map_of (butlast c) k = None"
  by (auto simp: map_of_eq_None_iff dest: in_set_butlastD)

lemma filter_filter_key:
  "filter (\<lambda>e. fst e \<noteq> k) (filter (\<lambda>e. fst e \<noteq> k) c) = filter (\<lambda>e. fst e \<noteq> k) c"
  by simp

lemma cached_after_return:
  assumes "get_climate_data env s zone days lat lon tz = (Inr a, s1)"
  shows "\<exists>rest. cache s1 = (make_key zone days lat lon tz, a) # rest
           \<and> filter (\<lambda>e. fst e \<noteq> make_key zone days lat lon tz) rest = rest"
proof (cases "map_of (cache s) (make_key zone days lat lon tz) = None")
  case True
  from get_climate_data_returns(3)[OF assms True] show ?thesis
    by (auto simp: lru_insert_def filter_absent_key True map_of_butlast_None)
next
  case False
  from get_climate_data_returns(2)[OF assms False] show ?thesis
    by (auto simp: lru_touch_def)
qed

text \<open>
  Claim C5, as the code has it. When a call of \<open>get_climate_data\<close> returns a series, the
  same call made next is answered from the cache: it returns the same frame and changes
  nothing, so it makes no forecast request. The first call made one request if its key was
  not in the cache and none if it was. A new entry goes to the front of the cache, and a
  cache that is full (\<open>maxsize\<close> entries) drops its last entry, the one used longest
  ago; a hit moves its entry to the front and keeps the others in their order. The cache of
  a server never holds more than \<open>maxsize\<close> entries.
\<close>

theorem repeated_request_served_from_cache:
  assumes first: "get_climate_data env s zone days lat lon tz = (Inr a, s1)"
  shows "get_climate_data env s1 zone days lat lon tz = (Inr a, s1)
       \<and> fetch_calls s1 =
           fetch_calls s + (if map_of (cache s) (make_key zone days lat lon tz) = None then 1 else 0)
       \<and> cache s1 =
           (make_key zone days lat lon tz, a) #
           (if map_of (cache s) (make_key zone days lat lon tz) = None
            then (if maxsize \<le> length (cache s) then butlast (cache s) else cache s)
            else filter (\<lambda>e. fst e \<noteq> make_key zone days lat lon tz) (cache s))
       \<and> (wf_state s \<longrightarrow> length (cache s1) \<le> maxsize)"
proof -
  let ?k = "make_key zone days lat lon tz"
  have h: "hashable zone" "hashable lat" "hashable lon" "hashable tz"
    using get_climate_data_returns(1)[OF first] by simp_all
  obtain rest where c1: "cache s1 = (?k, a) # rest" "filter (\<lambda>e. fst e \<noteq> ?k) rest = rest"
    using cached_after_return[OF first] by blast
  have "get_climate_data env s1 zone days lat lon tz =
          (Inr a, s1\<lparr>cache := lru_touch ?k a (cache s1)\<rparr>)"
    using h c1 by (intro get_climate_data_hit) simp_all
  moreover have "lru_touch ?k a (cache s1) = cache s1"
    using c1 by (simp add: lru_touch_def)
  ultimately have again: "get_climate_data env s1 zone days lat lon tz = (Inr a, s1)"
    by simp
  have calls: "fetch_calls s1 = fetch_calls s + (if map_of (cache s) ?k = None then 1 else 0)"
    and entries: "cache s1 = (?k, a) #
           (if map_of (cache s) ?k = None
            then (if maxsize \<le> length (cache s) then butlast (cache s) else cache s)
            else filter (\<lambda>e. fst e \<noteq> ?k) (cache s))"
    using get_climate_data_returns(2,3)[OF first]
    by (auto simp: lru_insert_def lru_touch_def)
  have bound: "wf_state s \<longrightarrow> length (cache s1) \<le> maxsize"
    using wf_get_climate_data[of s env zone days lat lon tz] first
    by (auto simp: wf_state_def)
  from again calls entries bound show ?thesis by blast
qed

lemma str_lower_miami: "str_lower ''miami'' = ''miami''"
  by (simp add: str_lower_def lower_char_def is_upper_def)

lemma str_lower_chicago: "str_lower ''chicago'' = ''chicago''"
  by (simp add: str_lower_def lower_char_def is_upper_def)

lemmas fetch_eval =
  get_climate_data_def get_climate_data_wrapped_def hashable_def make_key_def key_part_def
  resolve_coords_def ZONE_COORDINATES_def request_params_def frame_of_payload_def
  steady_payload_def lru_insert_def lru_touch_def maxsize_def init_state_def Let_def

text \<open>
  Claim C5 as stated fails when the provider fails: a call that raises stores nothing, so
  the same request made twice while the provider answers 503 makes two forecast requests.
\<close>

theorem failed_fetch_is_repeated:
  "get_climate_data provider_down_env init_state (JStr ''miami'') 30 JNull JNull JNull =
     (Inl (HTTPError ''503 Server Error''), init_state\<lparr>fetch_calls := 1\<rparr>)
   \<and> get_climate_data provider_down_env (init_state\<lparr>fetch_calls := 1\<rparr>)
       (JStr ''miami'') 30 JNull JNull JNull =
     (Inl (HTTPError ''503 Server Error''), init_state\<lparr>fetch_calls := 2\<rparr>)"
  by (simp add: fetch_eval provider_down_env_def example_env_def str_lower_miami)

lemma crowded_lookup:
  "z \<noteq> ''miami'' \<Longrightarrow> map_of (cache crowded_state) (JStr z, d, la, lo, t) = None"
  by (auto simp: crowded_state_def map_of_eq_None_iff)

lemma wf_crowded_state: "wf_state crowded_state"
  by (auto simp: wf_state_def crowded_state_def key_resolves_def resolve_coords_def
      ZONE_COORDINATES_def str_lower_miami maxsize_def distinct_map intro!: inj_onI)

theorem repeated_request_served_from_cache_witness:
  "fst (get_climate_data example_env init_state (JStr ''miami'') 7 JNull JNull JNull) = Inr 0
   \<and> get_climate_data example_env
       (snd (get_climate_data example_env init_state (JStr ''miami'') 7 JNull JNull JNull))
       (JStr ''miami'') 7 JNull JNull JNull =
     (Inr 0, snd (get_climate_data example_env init_state (JStr ''miami'') 7 JNull JNull JNull))
   \<and> fetch_calls
       (snd (get_climate_data example_env init_state (JStr ''miami'') 7 JNull JNull JNull)) = 1
   \<and> fst (get_climate_data example_env crowded_state (JStr ''chicago'') 7 JNull JNull JNull) =
       Inr 100
   \<and> cache (snd (get_climate_data example_env crowded_state (JStr ''chicago'') 7 JNull JNull JNull)) =
       ((JStr ''chicago'', 7, JNull, JNull, JNull), 100) # butlast (cache crowded_state)
   \<and> last (cache crowded_state) = ((JStr ''miami'', 106, JNull, JNull, JNull), 99)
   \<and> length (cache (snd
         (get_climate_data example_env crowded_state (JStr ''chicago'') 7 JNull JNull JNull)))
       \<le> maxsize"
proof -
  let ?s1 = "snd (get_climate_data example_env init_state (JStr ''miami'') 7 JNull JNull JNull)"
  let ?s2 = "snd (get_climate_data example_env crowded_state (JStr ''chicago'') 7 JNull JNull JNull)"
  have f1: "fst (get_climate_data example_env init_state (JStr ''miami'') 7 JNull JNull JNull) = Inr 0"
    by (simp add: fetch_eval example_env_def str_lower_miami)
  then have first: "get_climate_data example_env init_state (JStr ''miami'') 7 JNull JNull JNull
      = (Inr 0, ?s1)"
    by (simp add: prod_eq_iff)
  have none1: "map_of (cache init_state) (make_key (JStr ''miami'') 7 JNull JNull JNull) = None"
    by (simp add: init_state_def)
  have none2: "map_of (cache crowded_state) (make_key (JStr ''chicago'') 7 JNull JNull JNull) = None"
    by (simp add: make_key_def key_part_def crowded_lookup)
  have f2: "fst (get_climate_data example_env crowded_state (JStr ''chicago'') 7 JNull JNull JNull)
      = Inr 100"
    using none2
    by (simp add: get_climate_data_miss hashable_def get_climate_data_wrapped_def resolve_coords_def
        ZONE_COORDINATES_def str_lower_chicago example_env_def frame_of_payload_def
        steady_payload_def request_params_def Let_def)
       (simp add: crowded_state_def)
  then have second: "get_climate_data example_env crowded_state (JStr ''chicago'') 7 JNull JNull JNull
      = (Inr 100, ?s2)"
    by (simp add: prod_eq_iff)
  have full: "maxsize \<le> length (cache crowded_state)"
    by (simp add: maxsize_def crowded_state_def)
  have lst: "last (cache crowded_state) = ((JStr ''miami'', 106, JNull, JNull, JNull), 99)"
    by (simp add: crowded_state_def last_map)
  note one = repeated_request_served_from_cache[OF first]
  note two = repeated_request_served_from_cache[OF second]
  have a: "get_climate_data example_env ?s1 (JStr ''miami'') 7 JNull JNull JNull = (Inr 0, ?s1)"
    using one by blast
  have "fetch_calls ?s1 = fetch_calls init_state + 1"
    using one none1 by simp
  then have b: "fetch_calls ?s1 = 1"
    by (simp add: init_state_def)
  have "cache ?s2 = (make_key (JStr ''chicago'') 7 JNull JNull JNull, 100) #
      butlast (cache crowded_state)"
    using two none2 full by simp
  then have c: "cache ?s2 = ((JStr ''chicago'', 7, JNull, JNull, JNull), 100) #
      butlast (cache crowded_state)"
    by (simp add: make_key_def key_part_def)
  have d: "length (cache ?s2) \<le> maxsize"
    using two wf_crowded_state by blast
  from f1 a b f2 c lst d show ?thesis by blast
qed

section \<open>Letter case in the cache key\<close>

lemma make_key_zone_neq:
  "z1 \<noteq> z2 \<Longrightarrow> make_key (JStr z1) days lat lon tz \<noteq> make_key (JStr z2) days lat lon tz"
  by (simp add: make_key_def key_part_def)

lemma resolve_case_insensitive:
  "str_lower z1 = str_lower z2 \<Longrightarrow> resolve_coords (JStr z1) lat lon tz = Inr c \<Longrightarrow>
   resolve_coords (JStr z2) lat lon tz = Inr c"
  by (auto simp: resolve_coords_def split: if_splits option.splits)

lemma map_of_lru_insert_other:
  "k' \<noteq> k \<Longrightarrow> map_of c k' = None \<Longrightarrow> map_of (lru_insert k a c) k' = None"
  by (simp add: lru_insert_def map_of_butlast_None)

lemma map_of_lru_insert_second:
  assumes "k' \<noteq> k"
  shows "map_of (lru_insert k' b ((k, a) # rest)) k = Some a"
proof (cases "maxsize \<le> length ((k, a) # rest)")
  case True
  then have "rest \<noteq> []" by (auto simp: maxsize_def)
  with assms True show ?thesis by (simp add: lru_insert_def)
next
  case False
  with assms show ?thesis by (simp add: lru_insert_def)
qed

text \<open>
  Claim C9. The cache keys on the arguments as given, the resolver on the lowered zone name.
  Take two zone names that differ but are equal once lowered, the other arguments the same,
  and a cache that holds neither request. If the first request returns a series, then both
  names resolve to the same coordinates, their keys differ, the first request has made one
  forecast request and the second makes another one; and when the second returns too, the
  cache holds two entries, one per spelling, for two frames.
\<close>

theorem cache_key_is_case_sensitive:
  assumes differ: "z1 \<noteq> z2"
      and same: "str_lower z1 = str_lower z2"
      and fresh1: "map_of (cache s) (make_key (JStr z1) days lat lon tz) = None"
      and fresh2: "map_of (cache s) (make_key (JStr z2) days lat lon tz) = None"
      and first: "get_climate_data env s (JStr z1) days lat lon tz = (Inr a, s1)"
      and second: "get_climate_data env s1 (JStr z2) days lat lon tz = (r, s2)"
  shows "(\<exists>c. resolve_coords (JStr z1) lat lon tz = Inr c
            \<and> resolve_coords (JStr z2) lat lon tz = Inr c)
       \<and> make_key (JStr z1) days lat lon tz \<noteq> make_key (JStr z2) days lat lon tz
       \<and> fetch_calls s1 = fetch_calls s + 1
       \<and> fetch_calls s2 = fetch_calls s + 2
       \<and> (\<forall>b. r = Inr b \<longrightarrow>
             b \<noteq> a
             \<and> map_of (cache s2) (make_key (JStr z1) days lat lon tz) = Some a
             \<and> map_of (cache s2) (make_key (JStr z2) days lat lon tz) = Some b)"
proof -
  let ?k1 = "make_key (JStr z1) days lat lon tz"
  let ?k2 = "make_key (JStr z2) days lat lon tz"
  have keys: "?k1 \<noteq> ?k2"
    using differ by (rule make_key_zone_neq)
  have h: "hashable lat" "hashable lon" "hashable tz"
    using get_climate_data_returns(1)[OF first] by simp_all
  obtain df where w1: "get_climate_data_wrapped env s (JStr z1) days lat lon tz =
        (Inr df, s\<lparr>fetch_calls := fetch_calls s + 1\<rparr>)"
    and a: "a = length (heap s)"
    and s1: "s1 = s\<lparr>fetch_calls := fetch_calls s + 1, heap := heap s @ [df],
                   cache := lru_insert ?k1 (length (heap s)) (cache s)\<rparr>"
    using get_climate_data_returns(3)[OF first fresh1] by blast
  obtain c where c: "resolve_coords (JStr z1) lat lon tz = Inr c"
    using wrapped_success_resolves[OF w1] by (cases "resolve_coords (JStr z1) lat lon tz") auto
  have res: "\<exists>c. resolve_coords (JStr z1) lat lon tz = Inr c
            \<and> resolve_coords (JStr z2) lat lon tz = Inr c"
    using c resolve_case_insensitive[OF same c] by blast
  have calls1: "fetch_calls s1 = fetch_calls s + 1"
    by (simp add: s1)
  have miss2: "map_of (cache s1) ?k2 = None"
    using keys fresh2 by (simp add: s1 map_of_lru_insert_other)
  have resolved: "\<not> isl (resolve_coords (JStr z2) lat lon tz)"
    using res by auto
  have second_eq: "get_climate_data env s1 (JStr z2) days lat lon tz =
     (case get_climate_data_wrapped env s1 (JStr z2) days lat lon tz of
        (Inl e, s') \<Rightarrow> (Inl e, s')
      | (Inr df, s') \<Rightarrow>
          (Inr (length (heap s')),
           s'\<lparr>heap := heap s' @ [df],
              cache := lru_insert ?k2 (length (heap s')) (cache s')\<rparr>))"
    using h miss2 by (intro get_climate_data_miss) (simp_all add: hashable_JStr)
  obtain r' s' where w2: "get_climate_data_wrapped env s1 (JStr z2) days lat lon tz = (r', s')"
    by (cases "get_climate_data_wrapped env s1 (JStr z2) days lat lon tz")
  have s': "s' = s1\<lparr>fetch_calls := fetch_calls s1 + 1\<rparr>"
    using wrapped_state[of env s1 "JStr z2" days lat lon tz] w2 resolved by simp
  have calls2: "fetch_calls s2 = fetch_calls s + 2"
    using second second_eq w2 s' calls1 by (cases r') auto
  have entries: "b \<noteq> a \<and> map_of (cache s2) ?k1 = Some a \<and> map_of (cache s2) ?k2 = Some b"
    if "r = Inr b" for b
  proof -
    from that second second_eq w2 obtain df2 where r': "r' = Inr df2"
      by (cases r') auto
    with that second second_eq w2 s'
    have b: "b = length (heap s1)"
      and c2: "cache s2 = lru_insert ?k2 (length (heap s1)) (cache s1)"
      by auto
    have "cache s1 = (?k1, a) # (if maxsize \<le> length (cache s) then butlast (cache s) else cache s)"
      by (simp add: s1 a lru_insert_def)
    then have "map_of (cache s2) ?k1 = Some a"
      using keys by (simp add: c2 map_of_lru_insert_second[OF keys[symmetric]])
    moreover have "map_of (cache s2) ?k2 = Some b"
      by (simp add: c2 b lru_insert_def)
    moreover have "b \<noteq> a"
      by (simp add: b a s1)
    ultimately show ?thesis by simp
  qed
  from res keys calls1 calls2 entries show ?thesis by blast
qed

lemma str_lower_Miami: "str_lower ''Miami'' = ''miami''"
  by code_simp

theorem cache_key_is_case_sensitive_witness:
  "resolve_coords (JStr ''Miami'') JNull JNull JNull = resolve_coords (JStr ''miami'') JNull JNull JNull
   \<and> \<not> isl (resolve_coords (JStr ''miami'') JNull JNull JNull)
   \<and> fst (get_climate_data example_env init_state (JStr ''Miami'') 7 JNull JNull JNull) = Inr 0
   \<and> fst (get_climate_data example_env
           (snd (get_climate_data example_env init_state (JStr ''Miami'') 7 JNull JNull JNull))
           (JStr ''miami'') 7 JNull JNull JNull) = Inr 1
   \<and> fetch_calls (snd (get_climate_data example_env
           (snd (get_climate_data example_env init_state (JStr ''Miami'') 7 JNull JNull JNull))
           (JStr ''miami'') 7 JNull JNull JNull)) = 2
   \<and> map_of (cache (snd (get_climate_data example_env
           (snd (get_climate_data example_env init_state (JStr ''Miami'') 7 JNull JNull JNull))
           (JStr ''miami'') 7 JNull JNull JNull))) (JStr ''Miami'', 7, JNull, JNull, JNull) = Some 0
   \<and> map_of (cache (snd (get_climate_data example_env
           (snd (get_climate_data example_env init_state (JStr ''Miami'') 7 JNull JNull JNull))
           (JStr ''miami'') 7 JNull JNull JNull))) (JStr ''miami'', 7, JNull, JNull, JNull) = Some 1"
proof -
  let ?s1 = "snd (get_climate_data example_env init_state (JStr ''Miami'') 7 JNull JNull JNull)"
  let ?g2 = "get_climate_data example_env ?s1 (JStr ''miami'') 7 JNull JNull JNull"
  have differ: "''Miami'' \<noteq> ''miami''" by simp
  have same: "str_lower ''Miami'' = str_lower ''miami''"
    by (simp add: str_lower_Miami str_lower_miami)
  have fresh1: "map_of (cache init_state) (make_key (JStr ''Miami'') 7 JNull JNull JNull) = None"
    and fresh2: "map_of (cache init_state) (make_key (JStr ''miami'') 7 JNull JNull JNull) = None"
    by (simp_all add: init_state_def)
  have f1: "fst (get_climate_data example_env init_state (JStr ''Miami'') 7 JNull JNull JNull) = Inr 0"
    by (simp add: fetch_eval example_env_def str_lower_Miami)
  then have first: "get_climate_data example_env init_state (JStr ''Miami'') 7 JNull JNull JNull
      = (Inr 0, ?s1)"
    by (simp add: prod_eq_iff)
  have second: "?g2 = (fst ?g2, snd ?g2)" by simp
  note facts = cache_key_is_case_sensitive[OF differ same fresh1 fresh2 first second]
  have calls: "fetch_calls (snd ?g2) = 2"
    using facts by (simp add: init_state_def)
  have f2: "fst ?g2 = Inr 1"
    by (simp add: fetch_eval example_env_def str_lower_Miami str_lower_miami)
  from facts f2 have entries:
    "map_of (cache (snd ?g2)) (make_key (JStr ''Miami'') 7 JNull JNull JNull) = Some 0"
    "map_of (cache (snd ?g2)) (make_key (JStr ''miami'') 7 JNull JNull JNull) = Some 1"
    by simp_all
  from facts have "resolve_coords (JStr ''Miami'') JNull JNull JNull =
      resolve_coords (JStr ''miami'') JNull JNull JNull
      \<and> \<not> isl (resolve_coords (JStr ''miami'') JNull JNull JNull)"
    by auto
  with f1 f2 calls entries show ?thesis
    by (simp add: make_key_def key_part_def)
qed

section \<open>Sharing of cached series\<close>

lemma calculate_energy_metrics_frame:
  "snd (calculate_energy_metrics df) =
     df\<lparr>CDD := Some (series_clip_lower (series_sub_scalar (Avg_Temp df) TEMP_COMFORT) 0),
        Solar_Potential := Some (series_mul (Solar_Radiation df)
           (scalar_sub_series 1 (series_div_scalar (Cloud_Cover df) 100)))\<rparr>"
  by (simp add: calculate_energy_metrics_def Let_def)

lemma fetched_columns_metrics:
  "fetched_columns (snd (calculate_energy_metrics df)) = fetched_columns df"
  by (simp add: calculate_energy_metrics_frame fetched_columns_def)

lemma calculate_energy_metrics_idem:
  "calculate_energy_metrics (snd (calculate_energy_metrics df)) = calculate_energy_metrics df"
  by (simp add: calculate_energy_metrics_def Let_def)

lemma fetched_list_update:
  "a < length h \<Longrightarrow>
   fetched_columns (h[a0 := snd (calculate_energy_metrics (h ! a0))] ! a) = fetched_columns (h ! a)"
  by (cases "a = a0") (simp_all add: fetched_columns_metrics)

lemma heap_get_climate_data:
  "\<exists>ext. heap (snd (get_climate_data env s zone days lat lon tz)) = heap s @ ext"
proof (cases "hashable zone \<and> hashable lat \<and> hashable lon \<and> hashable tz")
  case False
  then show ?thesis by (simp add: get_climate_data_unhashable)
next
  case h: True
  show ?thesis
  proof (cases "map_of (cache s) (make_key zone days lat lon tz)")
    case (Some a)
    with h show ?thesis by (simp add: get_climate_data_hit)
  next
    case None
    obtain r s' where w: "get_climate_data_wrapped env s zone days lat lon tz = (r, s')"
      by (cases "get_climate_data_wrapped env s zone days lat lon tz")
    have "heap s' = heap s"
      using wrapped_state[of env s zone days lat lon tz] w by (simp split: if_splits)
    with h None w show ?thesis
      by (cases r) (simp_all add: get_climate_data_miss)
  qed
qed

lemma gen_calls_get_climate_data:
  "gen_calls (snd (get_climate_data env s zone days lat lon tz)) = gen_calls s"
proof (cases "hashable zone \<and> hashable lat \<and> hashable lon \<and> hashable tz")
  case False
  then show ?thesis by (simp add: get_climate_data_unhashable)
next
  case h: True
  show ?thesis
  proof (cases "map_of (cache s) (make_key zone days lat lon tz)")
    case (Some a)
    with h show ?thesis by (simp add: get_climate_data_hit)
  next
    case None
    obtain r s' where w: "get_climate_data_wrapped env s zone days lat lon tz = (r, s')"
      by (cases "get_climate_data_wrapped env s zone days lat lon tz")
    have "gen_calls s' = gen_calls s"
      using wrapped_state[of env s zone days lat lon tz] w by (simp split: if_splits)
    with h None w show ?thesis
      by (cases r) (simp_all add: get_climate_data_miss)
  qed
qed

lemma heap_generate_ai_suggestion:
  "heap (snd (generate_ai_suggestion env s m u zone days)) = heap s"
  using generate_ai_suggestion_state[of env s m u zone days] by auto

lemma analyze_run_heap:
  "heap (snd (analyze_run env s u zone days lat lon tz)) =
     (case get_climate_data env s zone days lat lon tz of
        (Inl e, s1) \<Rightarrow> heap s1
      | (Inr a, s1) \<Rightarrow> (heap s1)[a := snd (calculate_energy_metrics (heap s1 ! a))])"
proof -
  obtain r s1 where g: "get_climate_data env s zone days lat lon tz = (r, s1)"
    by (cases "get_climate_data env s zone days lat lon tz")
  show ?thesis
  proof (cases r)
    case (Inl e)
    with g show ?thesis by (simp add: analyze_run_def)
  next
    case (Inr a)
    let ?s2 = "s1\<lparr>heap := (heap s1)[a := snd (calculate_energy_metrics (heap s1 ! a))]\<rparr>"
    have "heap (snd (generate_ai_suggestion env ?s2
        (fst (calculate_energy_metrics (heap s1 ! a))) u zone days)) = heap ?s2"
      by (rule heap_generate_ai_suggestion)
    with g Inr show ?thesis
      by (auto simp: analyze_run_def Let_def split: prod.splits sum.splits)
  qed
qed

lemma analyze_run_keeps_fetched:
  assumes "a < length (heap s)"
  shows "a < length (heap (snd (analyze_run env s u zone days lat lon tz)))
       \<and> fetched_columns (heap (snd (analyze_run env s u zone days lat lon tz)) ! a) =
           fetched_columns (heap s ! a)"
proof -
  obtain r s1 where g: "get_climate_data env s zone days lat lon tz = (r, s1)"
    by (cases "get_climate_data env s zone days lat lon tz")
  obtain ext where ext: "heap s1 = heap s @ ext"
    using heap_get_climate_data[of env s zone days lat lon tz] g by auto
  have a1: "a < length (heap s1)" and same: "heap s1 ! a = heap s ! a"
    using assms ext by (simp_all add: nth_append)
  show ?thesis
    using g a1 same by (cases r) (simp_all add: analyze_run_heap fetched_list_update)
qed

lemma analyze_keeps_fetched:
  assumes "a < length (heap s)"
  shows "a < length (heap (snd (analyze env s data)))
       \<and> fetched_columns (heap (snd (analyze env s data)) ! a) = fetched_columns (heap s ! a)"
  using assms analyze_run_keeps_fetched[OF assms]
  by (auto simp: analyze_def split: sum.splits prod.splits)

lemma export_csv_keeps_heap:
  assumes "a < length (heap s)"
  shows "a < length (heap (snd (export_csv env s data)))
       \<and> heap (snd (export_csv env s data)) ! a = heap s ! a"
proof (cases "py_int (dict_get data ''days'' (JNum 30))")
  case (Inl e)
  with assms show ?thesis by (simp add: export_csv_def)
next
  case (Inr days)
  let ?g = "get_climate_data env s (dict_get data ''zona'' (JStr ''new-york'')) days
      (dict_get data ''lat'' JNull) (dict_get data ''lon'' JNull) (dict_get data ''tz'' JNull)"
  obtain ext where "heap (snd ?g) = heap s @ ext"
    using heap_get_climate_data by blast
  moreover have "snd (export_csv env s data) = snd ?g"
    using Inr by (simp add: export_csv_def Let_def split: prod.splits sum.splits)
  ultimately show ?thesis
    using assms by (simp add: nth_append)
qed

text \<open>
  Claim C3, as the code has it. A cached series is an object shared by reference, and
  \<open>calculate_energy_metrics\<close> writes to it: it assigns the two derived columns
  \<open>CDD\<close> and \<open>Solar_Potential\<close> and leaves the seven fetched columns as they
  were. Computing the metrics again on the frame so changed gives the same metrics and the
  same frame. No request changes a fetched column of any series the server holds:
  \<open>analyze\<close> keeps the fetched columns of every frame, \<open>export_csv\<close> keeps every
  frame as it is.
\<close>

theorem metrics_keep_fetched_columns:
  "fetched_columns (snd (calculate_energy_metrics df)) = fetched_columns df
   \<and> CDD (snd (calculate_energy_metrics df)) =
       Some (series_clip_lower (series_sub_scalar (Avg_Temp df) TEMP_COMFORT) 0)
   \<and> Solar_Potential (snd (calculate_energy_metrics df)) =
       Some (series_mul (Solar_Radiation df)
          (scalar_sub_series 1 (series_div_scalar (Cloud_Cover df) 100)))
   \<and> calculate_energy_metrics (snd (calculate_energy_metrics df)) = calculate_energy_metrics df
   \<and> (\<forall>a < length (heap s).
         a < length (heap (snd (analyze env s data)))
         \<and> fetched_columns (heap (snd (analyze env s data)) ! a) = fetched_columns (heap s ! a))
   \<and> (\<forall>a < length (heap s).
         a < length (heap (snd (export_csv env s data)))
         \<and> heap (snd (export_csv env s data)) ! a = heap s ! a)"
  using fetched_columns_metrics[of df] calculate_energy_metrics_idem[of df]
    analyze_keeps_fetched[of _ s env data] export_csv_keeps_heap[of _ s env data]
  by (simp add: calculate_energy_metrics_frame)

lemma replicate_8: "replicate 8 x = [x, x, x, x, x, x, x, x]"
  by (simp add: numeral_eq_Suc)

lemma example_fetch_week:
  "get_climate_data example_env init_state (JStr ''new-york'') 7 JNull JNull JNull =
     (Inr 0,
      \<lparr>heap = [week_frame], cache = [((JStr ''new-york'', 7, JNull, JNull, JNull), 0)],
       fetch_calls = 1, gen_calls = 0\<rparr>)"
  by (simp add: fetch_eval example_env_def str_lower_new_york upt_conv_Cons week_frame_def replicate_8)

lemma round_half_even_int: "round_half_even (of_int n) = n"
  by (simp add: round_half_even_def)

lemma round1_int: "round1 (of_int n) = of_int n"
proof -
  have "of_int n * 10 = (of_int (n * 10) :: rat)" by simp
  then have "round_half_even (of_int n * 10) = n * 10"
    by (simp only: round_half_even_int)
  then show ?thesis by (simp add: round1_def)
qed

lemmas metric_eval =
  calculate_energy_metrics_def py_round1_def series_mean_def series_max_def series_min_def
  series_sum_def series_clip_lower_def series_sub_scalar_def series_div_scalar_def
  scalar_sub_series_def series_mul_def float_mul_def float_gt_def float_le_def float_lt_def
  mask_and_def mask_sum_def TEMP_COMFORT_def TEMP_EXTREME_def Let_def

lemma week_metrics_eval:
  "calculate_energy_metrics week_frame =
     (week_metrics,
      week_frame\<lparr>CDD := Some (replicate 8 (Fin 2)), Solar_Potential := Some (replicate 8 (Fin 15))\<rparr>)"
  using round1_int[of 26] round1_int[of 31] round1_int[of 16] round1_int[of 20]
    round1_int[of 15] round1_int[of 55]
  by (simp add: metric_eval week_frame_def week_metrics_def replicate_8)

lemma analyze_input_week:
  "analyze_input [''days'' \<mapsto> JNum 7] = Inr (''home'', JStr ''new-york'', 7, JNull, JNull, JNull)"
  by (simp add: analyze_input_def dict_get_def py_lower_def py_int_def str_lower_home
        str_lower_new_york ZONE_COORDINATES_def Let_def)

lemma analyze_week:
  "analyze example_env init_state [''days'' \<mapsto> JNum 7] =
     (Success \<lparr>resp_user_type = ''home'', resp_zone = JStr ''new-york'', resp_days = 7,
               resp_metrics = week_metrics, resp_suggestion = ''### Pre-cool in the morning'',
               resp_charts = \<lparr>temperature = ''iVBORw0KGgo='', solar = ''iVBORw0KGgo=''\<rparr>\<rparr>,
      week_state)"
  by (simp add: analyze_def analyze_input_week analyze_run_def example_fetch_week
      week_metrics_eval generate_ai_suggestion_def user_context_def week_state_def)
     (simp add: generate_charts_def example_env_def)

lemma export_week_fresh:
  "export_csv example_env init_state [''days'' \<mapsto> JNum 7] =
     (Csv_file week_frame,
      \<lparr>heap = [week_frame], cache = [((JStr ''new-york'', 7, JNull, JNull, JNull), 0)],
       fetch_calls = 1, gen_calls = 0\<rparr>)"
  by (simp add: export_csv_def dict_get_def py_int_def example_fetch_week)

lemma export_week_cached:
  "export_csv example_env week_state [''days'' \<mapsto> JNum 7] =
     (Csv_file (week_frame\<lparr>CDD := Some (replicate 8 (Fin 2)),
                          Solar_Potential := Some (replicate 8 (Fin 15))\<rparr>),
      week_state)"
  by (simp add: export_csv_def dict_get_def py_int_def get_climate_data_def hashable_def
      make_key_def key_part_def week_state_def lru_touch_def)

text \<open>
  Claim C3 as stated fails: after \<open>analyze\<close> has computed the metrics of the cached
  series, an export served from the cache for the same key (no second forecast request)
  delivers nine columns, the seven the fetcher produced and the two derived ones, where
  the same export on a fresh server delivers seven.
\<close>

theorem cached_series_is_mutated:
  "fst (export_csv example_env init_state [''days'' \<mapsto> JNum 7]) = Csv_file week_frame
   \<and> columns week_frame =
       [''Date'', ''Avg_Temp'', ''Max_Temp'', ''Relative_Humidity'', ''Solar_Radiation'',
        ''Cloud_Cover'', ''Wind_Speed'']
   \<and> fetch_calls (snd (analyze example_env init_state [''days'' \<mapsto> JNum 7])) = 1
   \<and> fetch_calls (snd (export_csv example_env
         (snd (analyze example_env init_state [''days'' \<mapsto> JNum 7])) [''days'' \<mapsto> JNum 7])) = 1
   \<and> fst (export_csv example_env
         (snd (analyze example_env init_state [''days'' \<mapsto> JNum 7])) [''days'' \<mapsto> JNum 7]) =
       Csv_file (week_frame\<lparr>CDD := Some (replicate 8 (Fin 2)),
                            Solar_Potential := Some (replicate 8 (Fin 15))\<rparr>)
   \<and> columns (week_frame\<lparr>CDD := Some (replicate 8 (Fin 2)),
                          Solar_Potential := Some (replicate 8 (Fin 15))\<rparr>) =
       [''Date'', ''Avg_Temp'', ''Max_Temp'', ''Relative_Humidity'', ''Solar_Radiation'',
        ''Cloud_Cover'', ''Wind_Speed'', ''CDD'', ''Solar_Potential'']"
  by (simp add: analyze_week export_week_fresh export_week_cached)
     (simp add: columns_def week_frame_def week_state_def)

theorem metrics_keep_fetched_columns_witness:
  "(0::nat) < length (heap (snd (analyze example_env init_state [''days'' \<mapsto> JNum 7])))
   \<and> fetched_columns (heap (snd (analyze example_env
         (snd (analyze example_env init_state [''days'' \<mapsto> JNum 7])) [''days'' \<mapsto> JNum 7])) ! 0) =
       fetched_columns week_frame
   \<and> heap (snd (export_csv example_env
         (snd (analyze example_env init_state [''days'' \<mapsto> JNum 7])) [''days'' \<mapsto> JNum 7])) ! 0 =
       week_frame\<lparr>CDD := Some (replicate 8 (Fin 2)), Solar_Potential := Some (replicate 8 (Fin 15))\<rparr>"
proof -
  let ?s1 = "snd (analyze example_env init_state [''days'' \<mapsto> JNum 7])"
  have s1: "?s1 = week_state" by (simp add: analyze_week)
  have len: "0 < length (heap ?s1)" by (simp add: s1 week_state_def)
  have h0: "heap ?s1 ! 0 = week_frame\<lparr>CDD := Some (replicate 8 (Fin 2)),
      Solar_Potential := Some (replicate 8 (Fin 15))\<rparr>"
    by (simp add: s1 week_state_def)
  note facts = metrics_keep_fetched_columns[of "heap ?s1 ! 0" ?s1 example_env "[''days'' \<mapsto> JNum 7]"]
  from facts len have
    "fetched_columns (heap (snd (analyze example_env ?s1 [''days'' \<mapsto> JNum 7])) ! 0) =
       fetched_columns (heap ?s1 ! 0)"
    and "heap (snd (export_csv example_env ?s1 [''days'' \<mapsto> JNum 7])) ! 0 = heap ?s1 ! 0"
    by blast+
  with len h0 show ?thesis
    by (simp add: fetched_columns_def)
qed

section \<open>Failure of the text service\<close>

lemma wrapped_text_service:
  "get_climate_data_wrapped (env\<lparr>text_service := f\<rparr>) s zone days lat lon tz =
   get_climate_data_wrapped env s zone days lat lon tz"
  by (cases "resolve_coords zone lat lon tz") (simp_all add: get_climate_data_wrapped_def)

lemma get_climate_data_text_service:
  "get_climate_data (env\<lparr>text_service := f\<rparr>) s zone days lat lon tz =
   get_climate_data env s zone days lat lon tz"
  unfolding get_climate_data_def wrapped_text_service by (rule refl)

lemma generate_charts_text_service:
  "generate_charts (env\<lparr>text_service := f\<rparr>) df zone = generate_charts env df zone"
  by (cases zone) (simp_all add: generate_charts_def)

lemma generate_ai_suggestion_fails:
  assumes "\<And>p. text_service env (gen_calls s) p = Inl e" and "user_context u \<noteq> None"
  shows "generate_ai_suggestion env s m u (JStr z) d =
           (Inr (fallback_suggestion e), s\<lparr>gen_calls := gen_calls s + 1\<rparr>)"
  using assms by (auto simp: generate_ai_suggestion_def Let_def)

lemma generate_ai_suggestion_works:
  assumes "generate_ai_suggestion (env\<lparr>text_service := (\<lambda>n p. Inr t)\<rparr>) s m u zone d = (Inr x, s')"
  shows "user_context u \<noteq> None \<and> (\<exists>z. zone = JStr z) \<and> x = t
       \<and> s' = s\<lparr>gen_calls := gen_calls s + 1\<rparr>"
  using assms by (auto simp: generate_ai_suggestion_def Let_def split: json.splits option.splits)

lemma fallback_nonempty: "fallback_suggestion e \<noteq> []"
  by (simp add: fallback_suggestion_def)

lemma fallback_embeds_error: "sublist e (fallback_suggestion e)"
  unfolding fallback_suggestion_def sublist_def by (intro exI) (rule append_assoc[symmetric])

lemma fallback_recommends:
  "suffix ''Basic suggestion: Given the projected climate conditions, consider optimizing climate control usage during peak hours.''
     (fallback_suggestion e)"
  unfolding fallback_suggestion_def suffix_def
  by (intro exI[of _ "[CHR 0xE2, CHR 0x9A, CHR 0xA0, CHR 0xEF, CHR 0xB8, CHR 0x8F]
     @ '' Error generating suggestion: '' @ e @ [CHR 0x0A, CHR 0x0A]"]) simp

lemma analyze_input_refusal: "analyze_input data \<noteq> Inl (Success r)"
  by (simp add: analyze_input_def Let_def split: sum.splits)

lemma analyze_run_degrades:
  assumes fails: "\<And>p. text_service env (gen_calls s) p = Inl e"
      and ok: "analyze_run (env\<lparr>text_service := (\<lambda>n p. Inr t)\<rparr>) s u zone days lat lon tz =
                 (Success r, s')"
  shows "analyze_run env s u zone days lat lon tz =
           (Success (r\<lparr>resp_suggestion := fallback_suggestion e\<rparr>), s')"
proof -
  let ?env' = "env\<lparr>text_service := (\<lambda>n p. Inr t)\<rparr>"
  obtain r1 s1 where g: "get_climate_data env s zone days lat lon tz = (r1, s1)"
    by (cases "get_climate_data env s zone days lat lon tz")
  have gc: "gen_calls s1 = gen_calls s"
    using gen_calls_get_climate_data[of env s zone days lat lon tz] g by simp
  from ok g obtain a where a: "r1 = Inr a"
    by (cases r1) (auto simp: analyze_run_def get_climate_data_text_service)
  let ?m = "fst (calculate_energy_metrics (heap s1 ! a))"
  let ?s2 = "s1\<lparr>heap := (heap s1)[a := snd (calculate_energy_metrics (heap s1 ! a))]\<rparr>"
  obtain x s3 where gen: "generate_ai_suggestion ?env' ?s2 ?m u zone days = (x, s3)"
    by (cases "generate_ai_suggestion ?env' ?s2 ?m u zone days")
  from ok g a gen obtain out where x: "x = Inr out"
    by (cases x) (auto simp: analyze_run_def get_climate_data_text_service Let_def)
  from generate_ai_suggestion_works[OF gen[unfolded x]]
  obtain z where u: "user_context u \<noteq> None" and z: "zone = JStr z"
    and s3: "s3 = ?s2\<lparr>gen_calls := gen_calls ?s2 + 1\<rparr>"
    by auto
  have "\<And>p. text_service env (gen_calls ?s2) p = Inl e"
    using fails gc by simp
  then have gen': "generate_ai_suggestion env ?s2 ?m u zone days =
      (Inr (fallback_suggestion e), s3)"
    unfolding z s3 using u by (rule generate_ai_suggestion_fails)
  show ?thesis
    using ok g a gen x gen'
    by (auto simp: analyze_run_def get_climate_data_text_service generate_charts_text_service
        Let_def split: sum.splits)
qed

text \<open>
  Claim C4, as the code has it. Let the text service fail with the message \<open>e\<close> at the
  next generation call. Then \<open>generate_ai_suggestion\<close>, for a user type it has a context
  for, makes that one call and returns the fallback text of \<open>e\<close>: a string, which is
  not empty, contains \<open>e\<close>, ends with one fixed recommendation and depends on nothing
  but \<open>e\<close>. The advisory has no source field. The request still succeeds: whenever
  \<open>analyze\<close> answers with success while the text service works, it answers with the
  same success, the fallback text in place of the suggestion, while the service fails.
\<close>

theorem generation_failure_degrades:
  assumes fails: "\<And>p. text_service env (gen_calls s) p = Inl e"
  shows "(user_context u \<noteq> None \<longrightarrow>
            generate_ai_suggestion env s m u (JStr z) d =
              (Inr (fallback_suggestion e), s\<lparr>gen_calls := gen_calls s + 1\<rparr>))
       \<and> fallback_suggestion e \<noteq> []
       \<and> sublist e (fallback_suggestion e)
       \<and> suffix ''Basic suggestion: Given the projected climate conditions, consider optimizing climate control usage during peak hours.''
            (fallback_suggestion e)
       \<and> (\<forall>t r s'. analyze (env\<lparr>text_service := (\<lambda>n p. Inr t)\<rparr>) s data = (Success r, s')
              \<longrightarrow> analyze env s data =
                    (Success (r\<lparr>resp_suggestion := fallback_suggestion e\<rparr>), s'))"
proof -
  have pipeline: "analyze env s data =
                    (Success (r\<lparr>resp_suggestion := fallback_suggestion e\<rparr>), s')"
    if "analyze (env\<lparr>text_service := (\<lambda>n p. Inr t)\<rparr>) s data = (Success r, s')" for t r s'
  proof (cases "analyze_input data")
    case (Inl resp)
    with that analyze_input_refusal[of data r] show ?thesis by (simp add: analyze_def)
  next
    case (Inr args)
    obtain u' zone days lat lon tz where args: "args = (u', zone, days, lat, lon, tz)"
      by (cases args)
    with that Inr analyze_run_degrades[OF fails, of t u' zone days lat lon tz r s']
    show ?thesis by (simp add: analyze_def)
  qed
  with generate_ai_suggestion_fails[OF fails] fallback_nonempty fallback_embeds_error
    fallback_recommends
  show ?thesis by blast
qed

lemma text_down_fetch_week:
  "get_climate_data text_down_env init_state (JStr ''new-york'') 7 JNull JNull JNull =
     (Inr 0,
      \<lparr>heap = [week_frame], cache = [((JStr ''new-york'', 7, JNull, JNull, JNull), 0)],
       fetch_calls = 1, gen_calls = 0\<rparr>)"
  unfolding text_down_env_def get_climate_data_text_service by (rule example_fetch_week)

text \<open>
  Claim C4 as stated fails on the source field: with the text service down, the response of
  \<open>analyze\<close> carries the fallback text as its \<open>suggestion\<close>, a bare string, and
  has no \<open>source\<close> key; its keys are those of a response with a generated suggestion.
\<close>

theorem fallback_has_no_source_field:
  "analyze text_down_env init_state [''days'' \<mapsto> JNum 7] =
     (Success \<lparr>resp_user_type = ''home'', resp_zone = JStr ''new-york'', resp_days = 7,
               resp_metrics = week_metrics,
               resp_suggestion = fallback_suggestion ''429 quota exceeded'',
               resp_charts = \<lparr>temperature = ''iVBORw0KGgo='', solar = ''iVBORw0KGgo=''\<rparr>\<rparr>,
      week_state)
   \<and> response_keys (fst (analyze text_down_env init_state [''days'' \<mapsto> JNum 7])) =
       [''success'', ''timestamp'', ''parameters'', ''metrics'', ''suggestion'', ''charts'']
   \<and> ''source'' \<notin> set (response_keys (fst (analyze text_down_env init_state [''days'' \<mapsto> JNum 7])))
   \<and> response_keys (fst (analyze example_env init_state [''days'' \<mapsto> JNum 7])) =
       response_keys (fst (analyze text_down_env init_state [''days'' \<mapsto> JNum 7]))"
proof -
  have run: "analyze text_down_env init_state [''days'' \<mapsto> JNum 7] =
     (Success \<lparr>resp_user_type = ''home'', resp_zone = JStr ''new-york'', resp_days = 7,
               resp_metrics = week_metrics,
               resp_suggestion = fallback_suggestion ''429 quota exceeded'',
               resp_charts = \<lparr>temperature = ''iVBORw0KGgo='', solar = ''iVBORw0KGgo=''\<rparr>\<rparr>,
      week_state)"
    by (simp add: analyze_def analyze_input_week analyze_run_def text_down_fetch_week
      week_metrics_eval generate_ai_suggestion_def user_context_def week_state_def)
     (simp add: generate_charts_def text_down_env_def example_env_def)
  show ?thesis
    unfolding run analyze_week by (simp add: response_keys_def)
qed

theorem generation_failure_degrades_witness:
  "(\<forall>m. generate_ai_suggestion text_down_env init_state m ''home'' (JStr ''new-york'') 7 =
          (Inr (fallback_suggestion ''429 quota exceeded''), init_state\<lparr>gen_calls := 1\<rparr>))
   \<and> analyze text_down_env init_state [''days'' \<mapsto> JNum 7] =
     (Success \<lparr>resp_user_type = ''home'', resp_zone = JStr ''new-york'', resp_days = 7,
               resp_metrics = week_metrics,
               resp_suggestion = fallback_suggestion ''429 quota exceeded'',
               resp_charts = \<lparr>temperature = ''iVBORw0KGgo='', solar = ''iVBORw0KGgo=''\<rparr>\<rparr>,
      week_state)"
proof -
  have fails: "\<And>p. text_service text_down_env (gen_calls init_state) p = Inl ''429 quota exceeded''"
    by (simp add: text_down_env_def)
  have home: "user_context ''home'' \<noteq> None"
    by (simp add: user_context_def)
  have working: "text_down_env\<lparr>text_service := (\<lambda>n p. Inr ''### Pre-cool in the morning'')\<rparr>
      = example_env"
    by (simp add: text_down_env_def example_env_def)
  note facts = generation_failure_degrades[OF fails, of "''home''" _ "''new-york''" 7
      "[''days'' \<mapsto> JNum 7]"]
  have gen: "generate_ai_suggestion text_down_env init_state m ''home'' (JStr ''new-york'') 7 =
          (Inr (fallback_suggestion ''429 quota exceeded''), init_state\<lparr>gen_calls := 1\<rparr>)" for m
    using facts[of m] home by (simp add: init_state_def)
  have "analyze (text_down_env\<lparr>text_service := (\<lambda>n p. Inr ''### Pre-cool in the morning'')\<rparr>)
      init_state [''days'' \<mapsto> JNum 7] =
     (Success \<lparr>resp_user_type = ''home'', resp_zone = JStr ''new-york'', resp_days = 7,
               resp_metrics = week_metrics, resp_suggestion = ''### Pre-cool in the morning'',
               resp_charts = \<lparr>temperature = ''iVBORw0KGgo='', solar = ''iVBORw0KGgo=''\<rparr>\<rparr>,
      week_state)"
    unfolding working by (rule analyze_week)
  with facts have "analyze text_down_env init_state [''days'' \<mapsto> JNum 7] =
     (Success (\<lparr>resp_user_type = ''home'', resp_zone = JStr ''new-york'', resp_days = 7,
               resp_metrics = week_metrics, resp_suggestion = ''### Pre-cool in the morning'',
               resp_charts = \<lparr>temperature = ''iVBORw0KGgo='', solar = ''iVBORw0KGgo=''\<rparr>\<rparr>
        \<lparr>resp_suggestion := fallback_suggestion ''429 quota exceeded''\<rparr>), week_state)"
    by blast
  with gen show ?thesis by simp
qed

section \<open>Missing values\<close>






















end
